theory Spec2Isabelle
  imports Complex_Main "HOL-Library.Word"
begin

unbundle bit_operations_syntax

section \<open>JavaScript values used by the cross-chain modules\<close>

text \<open>
  A thrown \<open>Error\<close>: its \<open>message\<close>, and the \<open>code\<close> property that ethers attaches to
  some of its errors (\<open>NONCE_EXPIRED\<close>); \<open>None\<close> when the property is undefined.
\<close>

datatype js_error = JsError (code: "string option") (message: string)

definition mkError :: "string \<Rightarrow> js_error" where
  "mkError m = JsError None m"

text \<open>\<open>s.startsWith(p)\<close>.\<close>

definition startsWith :: "string \<Rightarrow> string \<Rightarrow> bool" where
  "startsWith s p = (take (length p) s = p)"

text \<open>
  \<open>s.replace(pat, rep)\<close> with a string pattern: only the first occurrence of \<open>pat\<close>,
  wherever it stands in \<open>s\<close>, is replaced.
\<close>

fun replace_first :: "string \<Rightarrow> string \<Rightarrow> string \<Rightarrow> string" where
  "replace_first pat rep [] = (if pat = [] then rep else [])"
| "replace_first pat rep (c # cs) =
     (if startsWith (c # cs) pat then rep @ drop (length pat) (c # cs)
      else c # replace_first pat rep cs)"

section \<open>Address codec\<close>

text \<open>
  \<open>aptosAddressToBytes32\<close> (the same text in the app's and in the script's base-sender):
  \<^verbatim>\<open>
  const cleanAddress = aptosAddress.replace('0x', '');
  if (cleanAddress.length !== 64) { throw new Error('Invalid Aptos address length'); }
  return '0x' + cleanAddress;
  \<close>
\<close>

definition aptosAddressToBytes32 :: "string \<Rightarrow> js_error + string" where
  "aptosAddressToBytes32 aptosAddress =
     (let cleanAddress = replace_first ''0x'' '''' aptosAddress
      in if length cleanAddress \<noteq> 64 then Inl (mkError ''Invalid Aptos address length'')
         else Inr (''0x'' @ cleanAddress))"

text \<open>\<open>evmToAptosAddress\<close> of the script's base-sender; \<open>'0'.repeat(n)\<close> throws a
  RangeError for a negative count.\<close>

definition evmToAptosAddress :: "string \<Rightarrow> js_error + string" where
  "evmToAptosAddress evmAddress =
     (let cleanAddress = replace_first ''0x'' '''' evmAddress
      in if 64 < length cleanAddress then Inl (mkError ''Invalid count value'')
         else Inr (''0x'' @ replicate (64 - length cleanAddress) CHR ''0'' @ cleanAddress))"

text \<open>The vocabulary of the address properties: hexadecimal digits, and the part of an
  address that follows an optional \<open>0x\<close> prefix.\<close>

definition is_hex_digit :: "char \<Rightarrow> bool" where
  "is_hex_digit c = (c \<in> set ''0123456789abcdefABCDEF'')"

definition hex_part :: "string \<Rightarrow> string" where
  "hex_part a = (if startsWith a ''0x'' then drop 2 a else a)"

lemma startsWith_0x: "startsWith a ''0x'' = (take 2 a = ''0x'')"
  by (simp add: startsWith_def numeral_2_eq_2)

lemma replace_first_absent:
  "CHR ''x'' \<notin> set s \<Longrightarrow> replace_first ''0x'' '''' s = s"
proof (induction s)
  case Nil
  show ?case by simp
next
  case (Cons c cs)
  have "\<not> startsWith (c # cs) ''0x''"
  proof
    assume "startsWith (c # cs) ''0x''"
    then have "take 2 (c # cs) = ''0x''" by (simp only: startsWith_0x)
    then have "CHR ''x'' \<in> set (take 2 (c # cs))" by simp
    then have "CHR ''x'' \<in> set (c # cs)" by (rule in_set_takeD)
    with Cons.prems show False by simp
  qed
  with Cons show ?case by simp
qed

lemma x_not_hex_digit: "\<not> is_hex_digit CHR ''x''"
  by (simp add: is_hex_digit_def)

lemma hex_digit_not_x: "list_all is_hex_digit s \<Longrightarrow> CHR ''x'' \<notin> set s"
proof
  assume "list_all is_hex_digit s" and "CHR ''x'' \<in> set s"
  then have "is_hex_digit CHR ''x''" by (simp add: list_all_iff)
  with x_not_hex_digit show False by simp
qed

lemma startsWith_0x_split: "startsWith a ''0x'' \<Longrightarrow> a = ''0x'' @ drop 2 a"
proof -
  assume "startsWith a ''0x''"
  then have "take 2 a = ''0x''" by (simp only: startsWith_0x)
  moreover have "take 2 a @ drop 2 a = a" by (rule append_take_drop_id)
  ultimately show ?thesis by simp
qed

lemma replace_first_prefixed: "replace_first ''0x'' '''' (''0x'' @ h) = h"
  by (simp add: startsWith_def)

lemma clean_hex_address:
  assumes "list_all is_hex_digit (hex_part a)"
  shows "replace_first ''0x'' '''' a = hex_part a"
proof (cases "startsWith a ''0x''")
  case True
  then have "a = ''0x'' @ drop 2 a" by (rule startsWith_0x_split)
  then have "replace_first ''0x'' '''' a = replace_first ''0x'' '''' (''0x'' @ drop 2 a)"
    by simp
  then have "replace_first ''0x'' '''' a = drop 2 a"
    by (simp only: replace_first_prefixed)
  with True show ?thesis by (simp add: hex_part_def)
next
  case False
  with assms have "CHR ''x'' \<notin> set a" by (simp add: hex_part_def hex_digit_not_x)
  with False show ?thesis by (simp add: hex_part_def replace_first_absent)
qed

lemma encode_clean:
  "aptosAddressToBytes32 c =
     (if length (replace_first ''0x'' '''' c) \<noteq> 64 then Inl (mkError ''Invalid Aptos address length'')
      else Inr (''0x'' @ replace_first ''0x'' '''' c))"
  by (simp add: aptosAddressToBytes32_def Let_def)

lemma encode_hex:
  assumes "list_all is_hex_digit (hex_part a)"
  shows "aptosAddressToBytes32 a =
     (if length (hex_part a) \<noteq> 64 then Inl (mkError ''Invalid Aptos address length'')
      else Inr (''0x'' @ hex_part a))"
  by (simp only: encode_clean clean_hex_address [OF assms])

text \<open>
  On addresses made of an optional \<open>0x\<close> prefix and hex digits the codec does what its
  name says: with exactly 64 digits it returns \<open>0x\<close> followed by those digits, unchanged;
  with fewer or more it throws the address-length error; two such 64-digit addresses
  have the same encoding only if they have the same hex digits.
\<close>

lemma aptosAddressToBytes32_hex_addresses:
  assumes "list_all is_hex_digit (hex_part a)" and "list_all is_hex_digit (hex_part b)"
  shows "(length (hex_part a) = 64 \<longrightarrow> aptosAddressToBytes32 a = Inr (''0x'' @ hex_part a))
       \<and> (length (hex_part a) \<noteq> 64 \<longrightarrow>
            aptosAddressToBytes32 a = Inl (mkError ''Invalid Aptos address length''))
       \<and> (length (hex_part a) = 64 \<and> length (hex_part b) = 64
            \<and> aptosAddressToBytes32 a = aptosAddressToBytes32 b \<longrightarrow> hex_part a = hex_part b)
       \<and> (\<forall>r. aptosAddressToBytes32 c = Inr r \<longrightarrow>
            r = ''0x'' @ replace_first ''0x'' '''' c \<and> length r = 66)"
proof (intro conjI impI allI)
  assume "length (hex_part a) = 64"
  then show "aptosAddressToBytes32 a = Inr (''0x'' @ hex_part a)"
    by (simp add: encode_hex [OF assms(1)])
next
  assume "length (hex_part a) \<noteq> 64"
  then show "aptosAddressToBytes32 a = Inl (mkError ''Invalid Aptos address length'')"
    by (simp add: encode_hex [OF assms(1)])
next
  assume h: "length (hex_part a) = 64 \<and> length (hex_part b) = 64
      \<and> aptosAddressToBytes32 a = aptosAddressToBytes32 b"
  then have la: "length (hex_part a) = 64" and lb: "length (hex_part b) = 64"
    and eq: "aptosAddressToBytes32 a = aptosAddressToBytes32 b"
    by blast+
  have "aptosAddressToBytes32 a = Inr (''0x'' @ hex_part a)"
    using la by (simp add: encode_hex [OF assms(1)])
  moreover have "aptosAddressToBytes32 b = Inr (''0x'' @ hex_part b)"
    using lb by (simp add: encode_hex [OF assms(2)])
  ultimately have "Inr (''0x'' @ hex_part a) = (Inr (''0x'' @ hex_part b) :: js_error + string)"
    using eq by simp
  then show "hex_part a = hex_part b" by simp
next
  fix r
  assume r: "aptosAddressToBytes32 c = Inr r"
  show "r = ''0x'' @ replace_first ''0x'' '''' c"
    using r by (simp add: encode_clean split: if_splits)
next
  fix r
  assume r: "aptosAddressToBytes32 c = Inr r"
  have "length (replace_first ''0x'' '''' c) = 64 \<and> r = ''0x'' @ replace_first ''0x'' '''' c"
    using r by (simp add: encode_clean split: if_splits)
  then show "length r = 66" by simp
qed

lemma aptosAddressToBytes32_hex_examples:
  "aptosAddressToBytes32 ''0x69091fbab5f7d635ee7ac5098cf0c1efbe31d68fec0f2cd565e8d168daf52832''
     = Inr ''0x69091fbab5f7d635ee7ac5098cf0c1efbe31d68fec0f2cd565e8d168daf52832''
   \<and> aptosAddressToBytes32 ''69091fbab5f7d635ee7ac5098cf0c1efbe31d68fec0f2cd565e8d168daf52832''
     = Inr ''0x69091fbab5f7d635ee7ac5098cf0c1efbe31d68fec0f2cd565e8d168daf52832''
   \<and> aptosAddressToBytes32 ''0x69091fbab5f7d635ee7ac5098cf0c1efbe31d68fec0f2cd565e8d168daf528''
     = Inl (mkError ''Invalid Aptos address length'')
   \<and> aptosAddressToBytes32 ''0x0069091fbab5f7d635ee7ac5098cf0c1efbe31d68fec0f2cd565e8d168daf52832''
     = Inl (mkError ''Invalid Aptos address length'')"
  using aptosAddressToBytes32_hex_addresses
          [of "''0x69091fbab5f7d635ee7ac5098cf0c1efbe31d68fec0f2cd565e8d168daf52832''"
              "''69091fbab5f7d635ee7ac5098cf0c1efbe31d68fec0f2cd565e8d168daf52832''"]
        aptosAddressToBytes32_hex_addresses
          [of "''69091fbab5f7d635ee7ac5098cf0c1efbe31d68fec0f2cd565e8d168daf52832''"
              "''69091fbab5f7d635ee7ac5098cf0c1efbe31d68fec0f2cd565e8d168daf52832''"]
        aptosAddressToBytes32_hex_addresses
          [of "''0x69091fbab5f7d635ee7ac5098cf0c1efbe31d68fec0f2cd565e8d168daf528''"
              "''0x69091fbab5f7d635ee7ac5098cf0c1efbe31d68fec0f2cd565e8d168daf528''"]
        aptosAddressToBytes32_hex_addresses
          [of "''0x0069091fbab5f7d635ee7ac5098cf0c1efbe31d68fec0f2cd565e8d168daf52832''"
              "''0x0069091fbab5f7d635ee7ac5098cf0c1efbe31d68fec0f2cd565e8d168daf52832''"]
  by (simp add: hex_part_def startsWith_def is_hex_digit_def)

text \<open>
  C8. The codec removes the first \<open>0x\<close> wherever it stands (\<open>replace('0x', '')\<close>), not
  only a prefix. The input below has no \<open>0x\<close> prefix and is 66 characters long, so the
  part behind the optional prefix is longer than 64 characters; the codec does not throw
  the address-length error but cuts the inner \<open>0x\<close> out and returns the shortened
  address, a well-formed 32-byte value that differs from the input.
\<close>

theorem aptosAddressToBytes32_accepts_inner_0x:
  "hex_part ''00x9091fbab5f7d635ee7ac5098cf0c1efbe31d68fec0f2cd565e8d168daf52832''
     = ''00x9091fbab5f7d635ee7ac5098cf0c1efbe31d68fec0f2cd565e8d168daf52832''
   \<and> length ''00x9091fbab5f7d635ee7ac5098cf0c1efbe31d68fec0f2cd565e8d168daf52832'' = 66
   \<and> aptosAddressToBytes32 ''00x9091fbab5f7d635ee7ac5098cf0c1efbe31d68fec0f2cd565e8d168daf52832''
     = Inr ''0x09091fbab5f7d635ee7ac5098cf0c1efbe31d68fec0f2cd565e8d168daf52832''"
  by (simp add: aptosAddressToBytes32_def hex_part_def startsWith_def)

section \<open>Destination-chain receiver: the script bytecode\<close>

text \<open>The precompiled Move script of the app's receiver, base64 encoded
  (\<open>CCTP_SCRIPT_BASE64\<close>).\<close>

definition CCTP_SCRIPT_BASE64 :: string where
  "CCTP_SCRIPT_BASE64 = ''oRzrCwcAAAoGAQAEAgQEAwgMBRQWBypTCH1AAAABAQACAAAAAwIDAAEBBAMEAAEDBgwKAgoCAAMGDAYKAgYKAgEIAAEBE21lc3NhZ2VfdHJhbnNtaXR0ZXIPdG9rZW5fbWVzc2VuZ2VyB1JlY2VpcHQPcmVjZWl2ZV9tZXNzYWdlFmhhbmRsZV9yZWNlaXZlX21lc3NhZ2UIHobOv0V6DGAE81vWSKJ5Rpj1Lg3eCaSGGdzT1Mwj2V+bk3QZ3akKoGwYNreEf2W7vj8SF1Z3WNwkiL4xpHe5AAABBwsADgEOAhEAEQEBAg==''"

text \<open>
  JavaScript strings are sequences of 16-bit code units; \<open>String.fromCharCode(n)\<close>
  takes \<open>n\<close> modulo \<open>2^16\<close>, and storing a number in a \<open>Uint8Array\<close> takes it
  modulo \<open>2^8\<close>.
\<close>

type_synonym code_unit = "16 word"
type_synonym byte = "8 word"

definition fromCharCode :: "int \<Rightarrow> code_unit" where
  "fromCharCode n = word_of_int n"

text \<open>\<open>s.charAt(i)\<close>: the character at \<open>i\<close>, the empty string (\<open>None\<close>) out of range.\<close>

definition charAt :: "string \<Rightarrow> nat \<Rightarrow> char option" where
  "charAt s i = (if i < length s then Some (s ! i) else None)"

text \<open>\<open>s.indexOf(x)\<close> for \<open>x\<close> a string of at most one character: the first position
  of the character, \<open>-1\<close> when it is absent, and \<open>0\<close> for the empty string.\<close>

fun index_from :: "string \<Rightarrow> char \<Rightarrow> int \<Rightarrow> int" where
  "index_from [] c k = - 1"
| "index_from (x # xs) c k = (if x = c then k else index_from xs c (k + 1))"

definition indexOf :: "string \<Rightarrow> char option \<Rightarrow> int" where
  "indexOf s x = (case x of None \<Rightarrow> 0 | Some c \<Rightarrow> index_from s c 0)"

text \<open>\<open>base64.replace(/=+$/, '')\<close>: the trailing run of \<open>=\<close> is removed.\<close>

definition strip_trailing_eq :: "string \<Rightarrow> string" where
  "strip_trailing_eq s = rev (dropWhile (\<lambda>c. c = CHR ''='') (rev s))"

definition base64_chars :: string where
  "base64_chars = ''ABCDEFGHIJKLMNOPQRSTUVWXYZabcdefghijklmnopqrstuvwxyz0123456789+/=''"

text \<open>
  The manual decoder of \<open>base64ToBytes\<close> (the branch taken when \<open>atob\<close> is undefined):
  \<^verbatim>\<open>
  for (let i = 0; i < str.length; i += 4) {
    const enc1 = chars.indexOf(str.charAt(i));
    const enc2 = chars.indexOf(str.charAt(i + 1));
    const enc3 = chars.indexOf(str.charAt(i + 2));
    const enc4 = chars.indexOf(str.charAt(i + 3));
    const chr1 = (enc1 << 2) | (enc2 >> 4);
    const chr2 = ((enc2 & 15) << 4) | (enc3 >> 2);
    const chr3 = ((enc3 & 3) << 6) | enc4;
    output += String.fromCharCode(chr1);
    if (enc3 !== 64) output += String.fromCharCode(chr2);
    if (enc4 !== 64) output += String.fromCharCode(chr3);
  }
  \<close>
  The indices lie between \<open>-1\<close> and \<open>64\<close>, so the 32-bit operators of JavaScript agree
  with the operations on \<open>int\<close>.
\<close>

function manual_decode_loop :: "string \<Rightarrow> nat \<Rightarrow> code_unit list \<Rightarrow> code_unit list" where
  "manual_decode_loop str i output =
     (if i < length str then
        (let enc1 = indexOf base64_chars (charAt str i);
             enc2 = indexOf base64_chars (charAt str (i + 1));
             enc3 = indexOf base64_chars (charAt str (i + 2));
             enc4 = indexOf base64_chars (charAt str (i + 3));
             chr1 = (push_bit 2 enc1) OR (drop_bit 4 enc2);
             chr2 = (push_bit 4 (enc2 AND 15)) OR (drop_bit 2 enc3);
             chr3 = (push_bit 6 (enc3 AND 3)) OR enc4;
             output1 = output @ [fromCharCode chr1];
             output2 = (if enc3 \<noteq> 64 then output1 @ [fromCharCode chr2] else output1);
             output3 = (if enc4 \<noteq> 64 then output2 @ [fromCharCode chr3] else output2)
         in manual_decode_loop str (i + 4) output3)
      else output)"
  by pat_completeness auto
termination
  by (relation "measure (\<lambda>(str, i, output). length str - i)") auto

declare manual_decode_loop.simps [simp del]

definition manual_decode :: "string \<Rightarrow> code_unit list" where
  "manual_decode base64 = manual_decode_loop (strip_trailing_eq base64) 0 []"

text \<open>
  \<open>atob\<close> belongs to the runtime. It is modelled after the forgiving-base64 decoder of
  the HTML standard: ASCII whitespace is dropped; when the length is a multiple of four,
  one or two trailing \<open>=\<close> are dropped; a remaining length of \<open>1\<close> modulo \<open>4\<close> or a
  character outside the alphabet is an \<open>InvalidCharacterError\<close>; the characters are
  read as 6-bit groups, most significant first, and the 4 or 2 bits left over after the
  last whole byte are discarded.
\<close>

definition is_ascii_whitespace :: "char \<Rightarrow> bool" where
  "is_ascii_whitespace c = (of_char c \<in> {9, 10, 12, 13, 32 :: nat})"

definition base64_alphabet :: string where
  "base64_alphabet = take 64 base64_chars"

definition drop_padding :: "string \<Rightarrow> string" where
  "drop_padding s =
     (if length s mod 4 = 0 then
        (if 2 \<le> length s \<and> drop (length s - 2) s = ''=='' then take (length s - 2) s
         else if 1 \<le> length s \<and> drop (length s - 1) s = ''='' then take (length s - 1) s
         else s)
      else s)"

fun sextets_to_units :: "int list \<Rightarrow> code_unit list" where
  "sextets_to_units (a # b # c # d # rest) =
     fromCharCode ((push_bit 2 a) OR (drop_bit 4 b))
     # fromCharCode ((push_bit 4 (b AND 15)) OR (drop_bit 2 c))
     # fromCharCode ((push_bit 6 (c AND 3)) OR d)
     # sextets_to_units rest"
| "sextets_to_units [a, b, c] =
     [fromCharCode ((push_bit 2 a) OR (drop_bit 4 b)),
      fromCharCode ((push_bit 4 (b AND 15)) OR (drop_bit 2 c))]"
| "sextets_to_units [a, b] = [fromCharCode ((push_bit 2 a) OR (drop_bit 4 b))]"
| "sextets_to_units _ = []"

definition atob :: "string \<Rightarrow> js_error + code_unit list" where
  "atob input =
     (let s = drop_padding (filter (\<lambda>c. \<not> is_ascii_whitespace c) input)
      in if length s mod 4 = 1 \<or> \<not> list_all (\<lambda>c. c \<in> set base64_alphabet) s
         then Inl (mkError ''InvalidCharacterError'')
         else Inr (sextets_to_units (map (\<lambda>c. index_from base64_alphabet c 0) s)))"

text \<open>
  \<open>base64ToBytes\<close> of the app's receiver. \<open>atob_defined\<close> is the runtime's answer to
  \<open>typeof atob !== 'undefined'\<close>. The final loop stores each code unit in a
  \<open>Uint8Array\<close>.
\<close>

definition base64ToBytes :: "bool \<Rightarrow> string \<Rightarrow> js_error + byte list" where
  "base64ToBytes atob_defined base64 =
     (case (if atob_defined then atob base64 else Inr (manual_decode base64)) of
        Inl e \<Rightarrow> Inl e
      | Inr binaryString \<Rightarrow> Inr (map ucast binaryString))"

text \<open>The bytes that the bytecode constant encodes.\<close>

definition script_bytes :: "byte list" where
  "script_bytes = [
   161, 28, 235, 11, 7, 0, 0, 10, 6, 1, 0, 4, 2, 4, 4, 3, 8, 12, 5, 20, 22, 7, 42, 83,
   8, 125, 64, 0, 0, 1, 1, 0, 2, 0, 0, 0, 3, 2, 3, 0, 1, 1, 4, 3, 4, 0, 1, 3, 6, 12,
   10, 2, 10, 2, 0, 3, 6, 12, 6, 10, 2, 6, 10, 2, 1, 8, 0, 1, 1, 19, 109, 101, 115,
   115, 97, 103, 101, 95, 116, 114, 97, 110, 115, 109, 105, 116, 116, 101, 114, 15,
   116, 111, 107, 101, 110, 95, 109, 101, 115, 115, 101, 110, 103, 101, 114, 7, 82,
   101, 99, 101, 105, 112, 116, 15, 114, 101, 99, 101, 105, 118, 101, 95, 109, 101,
   115, 115, 97, 103, 101, 22, 104, 97, 110, 100, 108, 101, 95, 114, 101, 99, 101, 105,
   118, 101, 95, 109, 101, 115, 115, 97, 103, 101, 8, 30, 134, 206, 191, 69, 122, 12,
   96, 4, 243, 91, 214, 72, 162, 121, 70, 152, 245, 46, 13, 222, 9, 164, 134, 25, 220,
   211, 212, 204, 35, 217, 95, 155, 147, 116, 25, 221, 169, 10, 160, 108, 24, 54, 183,
   132, 127, 101, 187, 190, 63, 18, 23, 86, 119, 88, 220, 36, 136, 190, 49, 164, 119,
   185, 0, 0, 1, 7, 11, 0, 14, 1, 14, 2, 17, 0, 17, 1, 1, 2]"

subsection \<open>Properties of the decoders\<close>

text \<open>On input without padding, whose length is a multiple of four, the manual decoder
  and \<open>atob\<close> agree.\<close>

definition sextet :: "char \<Rightarrow> int" where
  "sextet c = index_from base64_alphabet c 0"

lemma alphabet_facts:
  "\<forall>c \<in> set base64_alphabet.
      c \<noteq> CHR ''='' \<and> \<not> is_ascii_whitespace c
      \<and> index_from base64_chars c 0 = sextet c \<and> sextet c \<noteq> 64"
  by (simp add: base64_alphabet_def base64_chars_def is_ascii_whitespace_def sextet_def)

lemma alphabetD:
  assumes "list_all (\<lambda>c. c \<in> set base64_alphabet) s" and "c \<in> set s"
  shows "c \<noteq> CHR ''=''" and "\<not> is_ascii_whitespace c"
    and "index_from base64_chars c 0 = sextet c" and "sextet c \<noteq> 64"
proof -
  from assms have "c \<in> set base64_alphabet" by (simp add: list_all_iff)
  with alphabet_facts show "c \<noteq> CHR ''=''" and "\<not> is_ascii_whitespace c"
    and "index_from base64_chars c 0 = sextet c" and "sextet c \<noteq> 64"
    by blast+
qed

lemma strip_trailing_eq_id:
  assumes "list_all (\<lambda>c. c \<in> set base64_alphabet) s"
  shows "strip_trailing_eq s = s"
proof (cases "rev s")
  case Nil
  then show ?thesis by (simp add: strip_trailing_eq_def)
next
  case (Cons c cs)
  then have "c \<in> set s" by (metis list.set_intros(1) set_rev)
  then have "c \<noteq> CHR ''=''" using assms by (rule alphabetD(1) [rotated])
  with Cons have "dropWhile (\<lambda>c. c = CHR ''='') (rev s) = rev s" by simp
  then show ?thesis by (simp add: strip_trailing_eq_def)
qed

lemma filter_whitespace_id:
  assumes "list_all (\<lambda>c. c \<in> set base64_alphabet) s"
  shows "filter (\<lambda>c. \<not> is_ascii_whitespace c) s = s"
  using alphabetD(2) [OF assms] by (simp add: filter_id_conv)

lemma suffix_mem: "n < length s \<Longrightarrow> drop n s = t \<Longrightarrow> c \<in> set t \<Longrightarrow> c \<in> set s"
  by (auto dest: in_set_dropD)

lemma drop_padding_id:
  assumes "list_all (\<lambda>c. c \<in> set base64_alphabet) s"
  shows "drop_padding s = s"
proof -
  have "drop (length s - 2) s \<noteq> ''==''"
  proof
    assume "drop (length s - 2) s = ''==''"
    then have "CHR ''='' \<in> set (drop (length s - 2) s)" by simp
    then have "CHR ''='' \<in> set s" by (rule in_set_dropD)
    with alphabetD(1) [OF assms] show False by blast
  qed
  moreover have "drop (length s - 1) s \<noteq> ''=''"
  proof
    assume "drop (length s - 1) s = ''=''"
    then have "CHR ''='' \<in> set (drop (length s - 1) s)" by simp
    then have "CHR ''='' \<in> set s" by (rule in_set_dropD)
    with alphabetD(1) [OF assms] show False by blast
  qed
  ultimately show ?thesis by (simp add: drop_padding_def)
qed

lemma atob_unpadded:
  assumes "list_all (\<lambda>c. c \<in> set base64_alphabet) s" and "length s mod 4 = 0"
  shows "atob s = Inr (sextets_to_units (map sextet s))"
  using assms
  by (simp add: atob_def filter_whitespace_id drop_padding_id sextet_def [abs_def])

lemma four_from:
  assumes "i + 3 < length s"
  shows "drop i s = s ! i # s ! (i + 1) # s ! (i + 2) # s ! (i + 3) # drop (i + 4) s"
proof -
  have "drop i s = s ! i # drop (Suc i) s"
    using assms by (simp add: Cons_nth_drop_Suc)
  also have "drop (Suc i) s = s ! (i + 1) # drop (Suc (Suc i)) s"
    using assms by (simp add: Cons_nth_drop_Suc)
  also have "drop (Suc (Suc i)) s = s ! (i + 2) # drop (Suc (Suc (Suc i))) s"
    using assms by (simp add: Cons_nth_drop_Suc)
  also have "drop (Suc (Suc (Suc i))) s = s ! (i + 3) # drop (i + 4) s"
    using assms Cons_nth_drop_Suc [of "i + 3" s] by (simp add: numeral_3_eq_3 numeral_eq_Suc)
  finally show ?thesis .
qed

lemma manual_decode_step:
  assumes "list_all (\<lambda>c. c \<in> set base64_alphabet) s" and "i + 3 < length s"
  shows "manual_decode_loop s i out =
         manual_decode_loop s (i + 4)
           (out @ [fromCharCode ((push_bit 2 (sextet (s ! i))) OR (drop_bit 4 (sextet (s ! (i + 1))))),
                   fromCharCode ((push_bit 4 (sextet (s ! (i + 1)) AND 15)) OR (drop_bit 2 (sextet (s ! (i + 2))))),
                   fromCharCode ((push_bit 6 (sextet (s ! (i + 2)) AND 3)) OR sextet (s ! (i + 3)))])"
proof -
  have e: "indexOf base64_chars (charAt s j) = sextet (s ! j)" if "j < length s" for j
    using that by (simp add: charAt_def indexOf_def alphabetD(3) [OF assms(1)])
  have n: "sextet (s ! j) \<noteq> 64" if "j < length s" for j
    using that by (simp add: alphabetD(4) [OF assms(1)])
  have "i < length s" "Suc i < length s" "Suc (Suc i) < length s" "i + 3 < length s"
    using assms(2) by simp_all
  then show ?thesis
    by (subst manual_decode_loop.simps) (simp add: e n Let_def)
qed

lemma manual_decode_loop_unpadded:
  assumes "list_all (\<lambda>c. c \<in> set base64_alphabet) s"
  shows "i \<le> length s \<Longrightarrow> (length s - i) mod 4 = 0 \<Longrightarrow>
         manual_decode_loop s i out = out @ sextets_to_units (map sextet (drop i s))"
proof (induction "length s - i" arbitrary: i out rule: less_induct)
  case less
  show ?case
  proof (cases "i < length s")
    case False
    then show ?thesis by (subst manual_decode_loop.simps) simp
  next
    case True
    from less.prems(2) obtain k where k: "length s - i = 4 * k"
      by (auto simp: mod_eq_0_iff_dvd elim: dvdE)
    with True have "k \<noteq> 0" by auto
    with k have four: "i + 3 < length s" by arith
    have "length s - (i + 4) = 4 * (k - 1)" using k by arith
    then have rest: "(length s - (i + 4)) mod 4 = 0" by simp
    have "manual_decode_loop s (i + 4)
           (out @ [fromCharCode ((push_bit 2 (sextet (s ! i))) OR (drop_bit 4 (sextet (s ! (i + 1))))),
                   fromCharCode ((push_bit 4 (sextet (s ! (i + 1)) AND 15)) OR (drop_bit 2 (sextet (s ! (i + 2))))),
                   fromCharCode ((push_bit 6 (sextet (s ! (i + 2)) AND 3)) OR sextet (s ! (i + 3)))])
        = (out @ [fromCharCode ((push_bit 2 (sextet (s ! i))) OR (drop_bit 4 (sextet (s ! (i + 1))))),
                   fromCharCode ((push_bit 4 (sextet (s ! (i + 1)) AND 15)) OR (drop_bit 2 (sextet (s ! (i + 2))))),
                   fromCharCode ((push_bit 6 (sextet (s ! (i + 2)) AND 3)) OR sextet (s ! (i + 3)))])
          @ sextets_to_units (map sextet (drop (i + 4) s))"
      using four rest by (intro less.hyps) simp_all
    then show ?thesis
      by (simp add: manual_decode_step [OF assms four] four_from [OF four])
  qed
qed

lemma manual_decode_unpadded:
  assumes "list_all (\<lambda>c. c \<in> set base64_alphabet) s" and "length s mod 4 = 0"
  shows "manual_decode s = sextets_to_units (map sextet s)"
  using manual_decode_loop_unpadded [OF assms(1), of 0 "[]"] assms
  by (simp add: manual_decode_def strip_trailing_eq_id)

lemma base64ToBytes_unpadded:
  assumes "list_all (\<lambda>c. c \<in> set base64_alphabet) s" and "length s mod 4 = 0"
  shows "base64ToBytes False s = base64ToBytes True s"
  by (simp add: base64ToBytes_def atob_unpadded [OF assms] manual_decode_unpadded [OF assms])

lemma script_bytes_atob: "base64ToBytes True CCTP_SCRIPT_BASE64 = Inr script_bytes"
  by code_simp

lemma script_bytes_manual: "base64ToBytes False CCTP_SCRIPT_BASE64 = Inr (script_bytes @ [0, 0])"
  by code_simp

lemma script_bytes_length: "length script_bytes = 232"
  by code_simp

lemma shortest_padded:
  "base64ToBytes True ''QQ=='' = Inr [65]" "base64ToBytes False ''QQ=='' = Inr [65, 0, 0]"
  by code_simp+

text \<open>
  C10. With \<open>atob\<close>, \<open>base64ToBytes\<close> decodes the bytecode constant to its 232 bytes.
  Without \<open>atob\<close> the manual decoder strips the padding before its loop and reads the
  two missing characters of the last group as index 0 (\<open>chars.indexOf('')\<close>), so that
  its tests \<open>enc3 !== 64\<close> and \<open>enc4 !== 64\<close> never skip a byte: it returns the 232
  bytes followed by two zero bytes. The shortest padded input shows the same.
\<close>

theorem base64ToBytes_manual_appends_zero_bytes:
  "base64ToBytes True CCTP_SCRIPT_BASE64 = Inr script_bytes
   \<and> base64ToBytes False CCTP_SCRIPT_BASE64 = Inr (script_bytes @ [0, 0])
   \<and> length script_bytes = 232
   \<and> base64ToBytes True ''QQ=='' = Inr [65]
   \<and> base64ToBytes False ''QQ=='' = Inr [65, 0, 0]"
  by (simp only: script_bytes_atob script_bytes_manual script_bytes_length shortest_padded simp_thms)

section \<open>Attestation poller\<close>

text \<open>Numbers in template strings: the decimal numeral of a natural number.\<close>

definition digit_char :: "nat \<Rightarrow> char" where
  "digit_char d = ''0123456789'' ! d"

function show_nat :: "nat \<Rightarrow> string" where
  "show_nat n = (if n < 10 then [digit_char n] else show_nat (n div 10) @ [digit_char (n mod 10)])"
  by pat_completeness auto
termination
  by (relation "measure id") auto

declare show_nat.simps [simp del]

text \<open>\<open>CROSS_CHAIN_CONFIG.CIRCLE_API\<close> of the app and \<open>CIRCLE_API_CONFIG\<close> of the script
  (times in milliseconds); both hold the same values.\<close>

record circle_api_config =
  pollInterval :: nat
  maxRetries :: nat
  maxWaitTime :: nat

definition CIRCLE_API_CONFIG :: circle_api_config where
  "CIRCLE_API_CONFIG = \<lparr>pollInterval = 2000, maxRetries = 150, maxWaitTime = 5 * 60 * 1000\<rparr>"

datatype attestation_status = pending | complete | failed

record AttestationData =
  att_status :: attestation_status
  att_messageHash :: string
  att_messageBytes :: string
  att_attestation :: string

text \<open>
  The attestation authority as the poller sees it. The body of a response is the parsed
  JSON \<open>{status, message?, attestation?}\<close> (\<open>None\<close> for an absent property), or the
  error that \<open>response.json()\<close> throws. The \<open>k\<close>-th call of \<open>fetch\<close> (counted from 0)
  answers \<open>respond k\<close>, or throws, and takes \<open>latency k\<close> milliseconds.
\<close>

record attestation_json =
  json_status :: string
  json_message :: "string option"
  json_attestation :: "string option"

record http_response =
  http_status :: nat
  http_statusText :: string
  http_body :: "js_error + attestation_json"

record authority =
  respond :: "nat \<Rightarrow> js_error + http_response"
  latency :: "nat \<Rightarrow> nat"

definition response_ok :: "http_response \<Rightarrow> bool" where
  "response_ok r = (200 \<le> http_status r \<and> http_status r \<le> 299)"

text \<open>Truthiness of an optional string property, and \<open>x || ''\<close>.\<close>

definition truthy :: "string option \<Rightarrow> bool" where
  "truthy x = (case x of None \<Rightarrow> False | Some v \<Rightarrow> v \<noteq> [])"

definition or_empty :: "string option \<Rightarrow> string" where
  "or_empty x = (case x of None \<Rightarrow> [] | Some v \<Rightarrow> v)"

text \<open>
  What a poll does to the world: the clock \<open>Date.now()\<close>, the number of requests sent
  so far, and the requests and sleeps in the order they happened.
\<close>

datatype poll_event = Fetch string | Sleep nat

record poll_state =
  now :: nat
  queries :: nat
  events :: "poll_event list"

definition fetch :: "authority \<Rightarrow> string \<Rightarrow> poll_state \<Rightarrow> (js_error + http_response) \<times> poll_state" where
  "fetch w h s =
     (respond w (queries s),
      s\<lparr>now := now s + latency w (queries s), queries := queries s + 1,
        events := events s @ [Fetch h]\<rparr>)"

definition sleep :: "nat \<Rightarrow> poll_state \<Rightarrow> poll_state" where
  "sleep ms s = s\<lparr>now := now s + ms, events := events s @ [Sleep ms]\<rparr>"

text \<open>How the \<open>try\<close> block of one loop iteration ends: with a \<open>return\<close>, by reaching
  \<open>retries++\<close> after the sleep (\<open>Waiting\<close>), or with a thrown error.\<close>

datatype try_outcome = Returned AttestationData | Waiting | Thrown js_error

subsection \<open>The app's poller (api/cross-chain/circle-attestation.ts)\<close>

definition app_try :: "authority \<Rightarrow> string \<Rightarrow> poll_state \<Rightarrow> try_outcome \<times> poll_state" where
  "app_try w h s =
     (case fetch w h s of
        (Inl e, s1) \<Rightarrow> (Thrown e, s1)
      | (Inr response, s1) \<Rightarrow>
          if \<not> response_ok response then
            (if http_status response = 404 then (Waiting, s1)
             else (Thrown (mkError (''Circle API error: '' @ show_nat (http_status response))), s1))
          else
            (case http_body response of
               Inl e \<Rightarrow> (Thrown e, s1)
             | Inr data \<Rightarrow>
                 if json_status data = ''complete'' \<and> truthy (json_attestation data) then
                   (Returned \<lparr>att_status = complete, att_messageHash = h,
                      att_messageBytes = or_empty (json_message data),
                      att_attestation = or_empty (json_attestation data)\<rparr>, s1)
                 else (Waiting, s1)))"

text \<open>
  \<^verbatim>\<open>
  while (retries < maxRetries) {
    const elapsed = Date.now() - startTime;
    if (elapsed > maxWaitTime) { throw new Error(`Getting attestation timeout (waited ...)`); }
    try { ... } catch (error) {
      if (retries === maxRetries - 1) { throw error; }
      await this.sleep(pollInterval); retries++;
    }
  }
  throw new Error('Getting attestation exceeded maximum retry attempts');
  \<close>
  The deadline is tested before the \<open>try\<close>, so its error leaves the loop.
\<close>

definition app_timeout_error :: "nat \<Rightarrow> js_error" where
  "app_timeout_error elapsed =
     mkError (''Getting attestation timeout (waited '' @ show_nat ((elapsed + 500) div 1000) @ '' seconds)'')"

definition retries_exceeded_error :: js_error where
  "retries_exceeded_error = mkError ''Getting attestation exceeded maximum retry attempts''"

function app_poll_loop ::
  "circle_api_config \<Rightarrow> authority \<Rightarrow> string \<Rightarrow> nat \<Rightarrow> nat \<Rightarrow> poll_state
     \<Rightarrow> (js_error + AttestationData) \<times> poll_state" where
  "app_poll_loop cfg w h startTime retries s =
     (if retries < maxRetries cfg then
        (if now s - startTime > maxWaitTime cfg then (Inl (app_timeout_error (now s - startTime)), s)
         else
           (case app_try w h s of
              (Returned a, s1) \<Rightarrow> (Inr a, s1)
            | (Waiting, s1) \<Rightarrow> app_poll_loop cfg w h startTime (retries + 1) (sleep (pollInterval cfg) s1)
            | (Thrown e, s1) \<Rightarrow>
                if retries + 1 = maxRetries cfg then (Inl e, s1)
                else app_poll_loop cfg w h startTime (retries + 1) (sleep (pollInterval cfg) s1)))
      else (Inl retries_exceeded_error, s))"
  by pat_completeness auto
termination
  by (relation "measure (\<lambda>(cfg, w, h, startTime, retries, s). maxRetries cfg - retries)") auto

definition app_getAttestation ::
  "circle_api_config \<Rightarrow> authority \<Rightarrow> string \<Rightarrow> poll_state
     \<Rightarrow> (js_error + AttestationData) \<times> poll_state" where
  "app_getAttestation cfg w h s = app_poll_loop cfg w h (now s) 0 s"

subsection \<open>The script's poller (corss/src/circle-attestation.ts)\<close>

text \<open>
  Here the deadline is tested inside the \<open>try\<close>, a status \<open>failed\<close> throws, and a
  complete answer without message bytes is filled from the source transaction when the
  caller passed \<open>txHash\<close> and \<open>provider\<close>: \<open>backfill\<close> is \<open>None\<close> when it did not, and
  otherwise what \<open>extractMessageFromTransaction\<close> gives or throws.
\<close>

definition script_try ::
  "circle_api_config \<Rightarrow> authority \<Rightarrow> string \<Rightarrow> (js_error + string) option \<Rightarrow> nat
     \<Rightarrow> poll_state \<Rightarrow> try_outcome \<times> poll_state" where
  "script_try cfg w h backfill startTime s =
     (if now s - startTime > maxWaitTime cfg then (Thrown (mkError ''Getting attestation timeout''), s)
      else
        (case fetch w h s of
           (Inl e, s1) \<Rightarrow> (Thrown e, s1)
         | (Inr response, s1) \<Rightarrow>
             if \<not> response_ok response then
               (if http_status response = 404 then (Waiting, s1)
                else (Thrown (mkError (''Circle API error: '' @ show_nat (http_status response)
                        @ '' '' @ http_statusText response)), s1))
             else
               (case http_body response of
                  Inl e \<Rightarrow> (Thrown e, s1)
                | Inr data \<Rightarrow>
                    if json_status data = ''complete'' \<and> truthy (json_attestation data) then
                      (Returned \<lparr>att_status = complete, att_messageHash = h,
                         att_messageBytes =
                           (if or_empty (json_message data) = [] then
                              (case backfill of Some (Inr m) \<Rightarrow> m | _ \<Rightarrow> [])
                            else or_empty (json_message data)),
                         att_attestation = or_empty (json_attestation data)\<rparr>, s1)
                    else if json_status data = ''failed'' then
                      (Thrown (mkError ''Circle signature failed''), s1)
                    else (Waiting, s1))))"

function script_poll_loop ::
  "circle_api_config \<Rightarrow> authority \<Rightarrow> string \<Rightarrow> (js_error + string) option \<Rightarrow> nat \<Rightarrow> nat
     \<Rightarrow> poll_state \<Rightarrow> (js_error + AttestationData) \<times> poll_state" where
  "script_poll_loop cfg w h backfill startTime retries s =
     (if retries < maxRetries cfg then
        (case script_try cfg w h backfill startTime s of
           (Returned a, s1) \<Rightarrow> (Inr a, s1)
         | (Waiting, s1) \<Rightarrow>
             script_poll_loop cfg w h backfill startTime (retries + 1) (sleep (pollInterval cfg) s1)
         | (Thrown e, s1) \<Rightarrow>
             if retries + 1 = maxRetries cfg then (Inl e, s1)
             else script_poll_loop cfg w h backfill startTime (retries + 1) (sleep (pollInterval cfg) s1))
      else (Inl retries_exceeded_error, s))"
  by pat_completeness auto
termination
  by (relation "measure (\<lambda>(cfg, w, h, backfill, startTime, retries, s). maxRetries cfg - retries)") auto

definition script_getAttestation ::
  "circle_api_config \<Rightarrow> authority \<Rightarrow> string \<Rightarrow> (js_error + string) option \<Rightarrow> poll_state
     \<Rightarrow> (js_error + AttestationData) \<times> poll_state" where
  "script_getAttestation cfg w h backfill s = script_poll_loop cfg w h backfill (now s) 0 s"

text \<open>Stub authorities of the poller's tests: one that always answers 404, and one that
  answers 404 to the first \<open>n\<close> requests and a complete attestation afterwards.\<close>

definition not_found :: http_response where
  "not_found = \<lparr>http_status = 404, http_statusText = ''Not Found'', http_body = Inl (mkError ''no body'')\<rparr>"

definition complete_response :: "string \<Rightarrow> http_response" where
  "complete_response sig =
     \<lparr>http_status = 200, http_statusText = ''OK'',
      http_body = Inr \<lparr>json_status = ''complete'', json_message = None, json_attestation = Some sig\<rparr>\<rparr>"

definition always_404 :: "nat \<Rightarrow> authority" where
  "always_404 ms = \<lparr>respond = (\<lambda>k. Inr not_found), latency = (\<lambda>k. ms)\<rparr>"

definition complete_after :: "nat \<Rightarrow> string \<Rightarrow> nat \<Rightarrow> authority" where
  "complete_after n sig ms =
     \<lparr>respond = (\<lambda>k. if k < n then Inr not_found else Inr (complete_response sig)),
      latency = (\<lambda>k. ms)\<rparr>"

definition started_at :: "nat \<Rightarrow> poll_state" where
  "started_at t = \<lparr>now = t, queries = 0, events = []\<rparr>"

subsection \<open>Properties of the pollers\<close>

declare app_poll_loop.simps [simp del] script_poll_loop.simps [simp del]

lemma app_try_404:
  assumes "respond w (queries s) = Inr r" and "http_status r = 404"
  shows "app_try w h s = (Waiting, snd (fetch w h s))"
  using assms by (simp add: app_try_def fetch_def response_ok_def)

lemma script_try_404:
  assumes "respond w (queries s) = Inr r" and "http_status r = 404"
    and "now s - startTime \<le> maxWaitTime cfg"
  shows "script_try cfg w h backfill startTime s = (Waiting, snd (fetch w h s))"
  using assms by (simp add: script_try_def fetch_def response_ok_def)

lemma app_loop_waiting:
  assumes "retries < maxRetries cfg" and "now s - startTime \<le> maxWaitTime cfg"
    and "app_try w h s = (Waiting, s1)"
  shows "app_poll_loop cfg w h startTime retries s =
         app_poll_loop cfg w h startTime (retries + 1) (sleep (pollInterval cfg) s1)"
  using assms by (subst app_poll_loop.simps) simp

lemma script_loop_waiting:
  assumes "retries < maxRetries cfg"
    and "script_try cfg w h backfill startTime s = (Waiting, s1)"
  shows "script_poll_loop cfg w h backfill startTime retries s =
         script_poll_loop cfg w h backfill startTime (retries + 1) (sleep (pollInterval cfg) s1)"
  using assms by (subst script_poll_loop.simps) simp

lemma app_loop_returned:
  assumes "retries < maxRetries cfg" and "now s - startTime \<le> maxWaitTime cfg"
    and "app_try w h s = (Returned a, s1)"
  shows "app_poll_loop cfg w h startTime retries s = (Inr a, s1)"
  using assms by (subst app_poll_loop.simps) simp

lemma script_loop_returned:
  assumes "retries < maxRetries cfg"
    and "script_try cfg w h backfill startTime s = (Returned a, s1)"
  shows "script_poll_loop cfg w h backfill startTime retries s = (Inr a, s1)"
  using assms by (subst script_poll_loop.simps) simp

text \<open>One round against an authority that answers 404: the request, then the sleep.\<close>

definition round_404 :: "authority \<Rightarrow> string \<Rightarrow> nat \<Rightarrow> poll_state \<Rightarrow> poll_state" where
  "round_404 w h p s = sleep p (snd (fetch w h s))"

lemma round_404_fields:
  "now (round_404 w h p s) = now s + latency w (queries s) + p"
  "queries (round_404 w h p s) = queries s + 1"
  "events (round_404 w h p s) = events s @ [Fetch h, Sleep p]"
  by (simp_all add: round_404_def sleep_def fetch_def)

lemma app_round:
  assumes "retries < maxRetries cfg" and "now s - startTime \<le> maxWaitTime cfg"
    and "respond w (queries s) = Inr r" and "http_status r = 404"
  shows "app_poll_loop cfg w h startTime retries s =
         app_poll_loop cfg w h startTime (retries + 1) (round_404 w h (pollInterval cfg) s)"
  unfolding round_404_def
  using assms(1,2) app_try_404 [OF assms(3,4)] by (rule app_loop_waiting)

lemma script_round:
  assumes "retries < maxRetries cfg" and "now s - startTime \<le> maxWaitTime cfg"
    and "respond w (queries s) = Inr r" and "http_status r = 404"
  shows "script_poll_loop cfg w h backfill startTime retries s =
         script_poll_loop cfg w h backfill startTime (retries + 1) (round_404 w h (pollInterval cfg) s)"
  unfolding round_404_def
  using assms(1) script_try_404 [OF assms(3,4,2)] by (rule script_loop_waiting)

definition fourth_answer :: "http_response \<Rightarrow> attestation_json \<Rightarrow> string \<Rightarrow> bool" where
  "fourth_answer r data sig =
     (response_ok r \<and> http_body r = Inr data \<and> json_status data = ''complete''
      \<and> json_attestation data = Some sig \<and> sig \<noteq> [])"

lemma app_try_complete:
  assumes "respond w (queries s) = Inr r" and "fourth_answer r data sig"
  shows "app_try w h s =
         (Returned \<lparr>att_status = complete, att_messageHash = h,
            att_messageBytes = or_empty (json_message data), att_attestation = sig\<rparr>,
          snd (fetch w h s))"
  using assms by (simp add: app_try_def fetch_def fourth_answer_def truthy_def or_empty_def)

lemma script_try_complete:
  assumes "respond w (queries s) = Inr r" and "fourth_answer r data sig"
    and "now s - startTime \<le> maxWaitTime cfg"
  shows "script_try cfg w h backfill startTime s =
         (Returned \<lparr>att_status = complete, att_messageHash = h,
            att_messageBytes = (if or_empty (json_message data) = [] then
                              (case backfill of Some (Inr m) \<Rightarrow> m | _ \<Rightarrow> [])
                            else or_empty (json_message data)),
            att_attestation = sig\<rparr>,
          snd (fetch w h s))"
  using assms by (simp add: script_try_def fetch_def fourth_answer_def truthy_def or_empty_def)

text \<open>
  C4. Against an authority that answers 404 to the first three requests and a complete
  attestation with a non-empty signature to the fourth, \<open>getAttestation\<close> of both
  implementations returns the complete attestation after exactly four requests, with one
  sleep of the poll interval between consecutive requests; a 404 is not an error. The
  retry budget must allow four attempts and the three rounds must end before the
  deadline, as they do under the shipped configuration.
\<close>

theorem getAttestation_fourth_query:
  assumes r0: "respond w 0 = Inr r0" "http_status r0 = 404"
    and r1: "respond w 1 = Inr r1" "http_status r1 = 404"
    and r2: "respond w 2 = Inr r2" "http_status r2 = 404"
    and r3: "respond w 3 = Inr r3" "fourth_answer r3 data sig"
    and enough: "4 \<le> maxRetries cfg"
    and early: "latency w 0 + latency w 1 + latency w 2 + 3 * pollInterval cfg \<le> maxWaitTime cfg"
  shows "app_getAttestation cfg w h (started_at t) =
           (Inr \<lparr>att_status = complete, att_messageHash = h,
                 att_messageBytes = or_empty (json_message data), att_attestation = sig\<rparr>,
            \<lparr>now = t + latency w 0 + latency w 1 + latency w 2 + latency w 3 + 3 * pollInterval cfg,
             queries = 4,
             events = [Fetch h, Sleep (pollInterval cfg), Fetch h, Sleep (pollInterval cfg),
                       Fetch h, Sleep (pollInterval cfg), Fetch h]\<rparr>)
       \<and> script_getAttestation cfg w h backfill (started_at t) =
           (Inr \<lparr>att_status = complete, att_messageHash = h,
                 att_messageBytes = (if or_empty (json_message data) = [] then
                                   (case backfill of Some (Inr m) \<Rightarrow> m | _ \<Rightarrow> [])
                                 else or_empty (json_message data)),
                 att_attestation = sig\<rparr>,
            \<lparr>now = t + latency w 0 + latency w 1 + latency w 2 + latency w 3 + 3 * pollInterval cfg,
             queries = 4,
             events = [Fetch h, Sleep (pollInterval cfg), Fetch h, Sleep (pollInterval cfg),
                       Fetch h, Sleep (pollInterval cfg), Fetch h]\<rparr>)"
proof -
  define p where "p = pollInterval cfg"
  define s0 where "s0 = started_at t"
  define s1 where "s1 = round_404 w h p s0"
  define s2 where "s2 = round_404 w h p s1"
  define s3 where "s3 = round_404 w h p s2"
  have q0: "queries s0 = 0" and n0: "now s0 = t" and e0: "events s0 = []"
    by (simp_all add: s0_def started_at_def)
  have q1: "queries s1 = 1" and n1: "now s1 = t + latency w 0 + p"
    and e1: "events s1 = [Fetch h, Sleep p]"
    by (simp_all add: s1_def round_404_fields q0 n0 e0)
  have q2: "queries s2 = 2" and n2: "now s2 = t + latency w 0 + latency w 1 + 2 * p"
    and e2: "events s2 = [Fetch h, Sleep p, Fetch h, Sleep p]"
    by (simp_all add: s2_def round_404_fields q1 n1 e1)
  have q3: "queries s3 = 3" and n3: "now s3 = t + latency w 0 + latency w 1 + latency w 2 + 3 * p"
    and e3: "events s3 = [Fetch h, Sleep p, Fetch h, Sleep p, Fetch h, Sleep p]"
    by (simp_all add: s3_def round_404_fields q2 n2 e2)
  have d0: "now s0 - t \<le> maxWaitTime cfg" by (simp add: n0)
  have d1: "now s1 - t \<le> maxWaitTime cfg" using early by (simp add: n1 p_def)
  have d2: "now s2 - t \<le> maxWaitTime cfg" using early by (simp add: n2 p_def)
  have d3: "now s3 - t \<le> maxWaitTime cfg" using early by (simp add: n3 p_def)
  have l0: "0 < maxRetries cfg" and l1: "1 < maxRetries cfg" and l2: "2 < maxRetries cfg"
    and l3: "3 < maxRetries cfg"
    using enough by simp_all
  have final: "snd (fetch w h s3) =
      \<lparr>now = t + latency w 0 + latency w 1 + latency w 2 + latency w 3 + 3 * p, queries = 4,
       events = [Fetch h, Sleep p, Fetch h, Sleep p, Fetch h, Sleep p, Fetch h]\<rparr>"
    by (simp add: fetch_def q3 n3 e3)
  have "app_poll_loop cfg w h t 0 s0 = app_poll_loop cfg w h t (0 + 1) s1"
    unfolding s1_def p_def using l0 d0 r0 by (intro app_round) (simp_all add: q0)
  also have "\<dots> = app_poll_loop cfg w h t (1 + 1) s2"
    unfolding s2_def p_def using l1 d1 r1 by (simp only: add_0) (intro app_round, simp_all add: q1)
  also have "\<dots> = app_poll_loop cfg w h t (2 + 1) s3"
    unfolding s3_def p_def using l2 d2 r2 by (simp only: one_add_one) (intro app_round, simp_all add: q2)
  also have "\<dots> = (Inr \<lparr>att_status = complete, att_messageHash = h,
        att_messageBytes = or_empty (json_message data), att_attestation = sig\<rparr>, snd (fetch w h s3))"
    using l3 d3 r3 by (intro app_loop_returned app_try_complete) (simp_all add: q3)
  finally have app: "app_getAttestation cfg w h (started_at t) =
      (Inr \<lparr>att_status = complete, att_messageHash = h,
            att_messageBytes = or_empty (json_message data), att_attestation = sig\<rparr>, snd (fetch w h s3))"
    by (simp add: app_getAttestation_def s0_def [symmetric] n0)
  have "script_poll_loop cfg w h backfill t 0 s0 = script_poll_loop cfg w h backfill t (0 + 1) s1"
    unfolding s1_def p_def using l0 d0 r0 by (intro script_round) (simp_all add: q0)
  also have "\<dots> = script_poll_loop cfg w h backfill t (1 + 1) s2"
    unfolding s2_def p_def using l1 d1 r1 by (simp only: add_0) (intro script_round, simp_all add: q1)
  also have "\<dots> = script_poll_loop cfg w h backfill t (2 + 1) s3"
    unfolding s3_def p_def using l2 d2 r2 by (simp only: one_add_one) (intro script_round, simp_all add: q2)
  also have "\<dots> = (Inr \<lparr>att_status = complete, att_messageHash = h,
        att_messageBytes = (if or_empty (json_message data) = [] then
                          (case backfill of Some (Inr m) \<Rightarrow> m | _ \<Rightarrow> [])
                        else or_empty (json_message data)),
        att_attestation = sig\<rparr>, snd (fetch w h s3))"
    using l3 d3 r3 by (intro script_loop_returned script_try_complete) (simp_all add: q3)
  finally have script: "script_getAttestation cfg w h backfill (started_at t) =
      (Inr \<lparr>att_status = complete, att_messageHash = h,
        att_messageBytes = (if or_empty (json_message data) = [] then
                          (case backfill of Some (Inr m) \<Rightarrow> m | _ \<Rightarrow> [])
                        else or_empty (json_message data)),
        att_attestation = sig\<rparr>, snd (fetch w h s3))"
    by (simp add: script_getAttestation_def s0_def [symmetric] n0)
  from app script show ?thesis by (simp only: final p_def)
qed

theorem getAttestation_fourth_query_witness:
  "app_getAttestation CIRCLE_API_CONFIG (complete_after 3 ''0xAB'' 0) ''0x7f'' (started_at 0) =
     (Inr \<lparr>att_status = complete, att_messageHash = ''0x7f'', att_messageBytes = [], att_attestation = ''0xAB''\<rparr>,
      \<lparr>now = 6000, queries = 4,
       events = [Fetch ''0x7f'', Sleep 2000, Fetch ''0x7f'', Sleep 2000, Fetch ''0x7f'', Sleep 2000,
                 Fetch ''0x7f'']\<rparr>)
   \<and> script_getAttestation CIRCLE_API_CONFIG (complete_after 3 ''0xAB'' 0) ''0x7f'' None (started_at 0) =
     (Inr \<lparr>att_status = complete, att_messageHash = ''0x7f'', att_messageBytes = [], att_attestation = ''0xAB''\<rparr>,
      \<lparr>now = 6000, queries = 4,
       events = [Fetch ''0x7f'', Sleep 2000, Fetch ''0x7f'', Sleep 2000, Fetch ''0x7f'', Sleep 2000,
                 Fetch ''0x7f'']\<rparr>)"
  using getAttestation_fourth_query [of "complete_after 3 ''0xAB'' 0" not_found not_found not_found
      "complete_response ''0xAB''"
      "\<lparr>json_status = ''complete'', json_message = None, json_attestation = Some ''0xAB''\<rparr>"
      "''0xAB''" CIRCLE_API_CONFIG "''0x7f''" 0 None]
  by (simp add: complete_after_def not_found_def complete_response_def fourth_answer_def
      response_ok_def CIRCLE_API_CONFIG_def or_empty_def)

text \<open>Past the deadline the script's loop sleeps through every retry that is left.\<close>

lemma script_try_late:
  assumes "maxWaitTime cfg < now s - startTime"
  shows "script_try cfg w h backfill startTime s = (Thrown (mkError ''Getting attestation timeout''), s)"
  using assms by (simp add: script_try_def)

lemma script_loop_late_step:
  assumes "maxWaitTime cfg < now s - startTime" and "retries + 1 < maxRetries cfg"
  shows "script_poll_loop cfg w h backfill startTime retries s =
         script_poll_loop cfg w h backfill startTime (retries + 1) (sleep (pollInterval cfg) s)"
  using assms by (subst script_poll_loop.simps) (simp add: script_try_late)

lemma script_loop_late_last:
  assumes "maxWaitTime cfg < now s - startTime" and "retries + 1 = maxRetries cfg"
  shows "script_poll_loop cfg w h backfill startTime retries s =
         (Inl (mkError ''Getting attestation timeout''), s)"
  using assms by (subst script_poll_loop.simps) (simp add: script_try_late)

lemma now_sleep: "now (sleep ms s) = now s + ms"
  by (simp add: sleep_def)

lemma script_loop_late:
  assumes "maxWaitTime cfg < now s - startTime" and "retries < maxRetries cfg"
  shows "script_poll_loop cfg w h backfill startTime retries s =
         (Inl (mkError ''Getting attestation timeout''),
          (sleep (pollInterval cfg) ^^ (maxRetries cfg - 1 - retries)) s)"
  using assms
proof (induction "maxRetries cfg - 1 - retries" arbitrary: retries s)
  case 0
  then have "retries + 1 = maxRetries cfg" by simp
  with 0 show ?case by (simp add: script_loop_late_last)
next
  case (Suc n)
  then have more: "retries + 1 < maxRetries cfg" by simp
  have late: "maxWaitTime cfg < now (sleep (pollInterval cfg) s) - startTime"
    using Suc.prems(1) by (simp add: now_sleep)
  have n: "n = maxRetries cfg - 1 - (retries + 1)" using Suc.hyps(2) by simp
  have "script_poll_loop cfg w h backfill startTime retries s =
        script_poll_loop cfg w h backfill startTime (retries + 1) (sleep (pollInterval cfg) s)"
    using Suc.prems(1) more by (rule script_loop_late_step)
  also have "\<dots> = (Inl (mkError ''Getting attestation timeout''),
          (sleep (pollInterval cfg) ^^ (maxRetries cfg - 1 - (retries + 1))) (sleep (pollInterval cfg) s))"
    using n late more by (rule Suc.hyps(1))
  also have "(sleep (pollInterval cfg) ^^ (maxRetries cfg - 1 - (retries + 1))) (sleep (pollInterval cfg) s)
      = (sleep (pollInterval cfg) ^^ (maxRetries cfg - 1 - retries)) s"
    using Suc.hyps(2) n by (simp add: funpow_swap1 del: funpow.simps) (metis funpow.simps(2) funpow_swap1 o_apply)
  finally show ?case .
qed

text \<open>The app's loop leaves at once.\<close>

lemma app_loop_late:
  assumes "maxWaitTime cfg < now s - startTime" and "retries < maxRetries cfg"
  shows "app_poll_loop cfg w h startTime retries s = (Inl (app_timeout_error (now s - startTime)), s)"
  using assms by (subst app_poll_loop.simps) simp

definition answers_404 :: "authority \<Rightarrow> nat \<Rightarrow> bool" where
  "answers_404 w k = (case respond w k of Inl e \<Rightarrow> False | Inr r \<Rightarrow> http_status r = 404)"

lemma answers_404D: "answers_404 w k \<Longrightarrow> \<exists>r. respond w k = Inr r \<and> http_status r = 404"
  by (cases "respond w k") (simp_all add: answers_404_def)

lemma queries_rounds: "queries ((round_404 w h p ^^ n) s) = queries s + n"
  by (induction n) (simp_all add: round_404_fields)

lemma now_rounds:
  assumes "\<And>k. latency w k = ms"
  shows "now ((round_404 w h p ^^ n) s) = now s + n * (ms + p)"
  by (induction n) (simp_all add: round_404_fields assms)

lemma now_sleeps: "now ((sleep p ^^ n) s) = now s + n * p"
  by (induction n) (simp_all add: now_sleep)

lemma queries_sleeps: "queries ((sleep p ^^ n) s) = queries s"
  by (induction n) (simp_all add: sleep_def)

lemma script_rounds:
  assumes "\<And>k. answers_404 w k"
    and "retries + n \<le> maxRetries cfg"
    and "\<And>k. k < n \<Longrightarrow> now ((round_404 w h (pollInterval cfg) ^^ k) s) - startTime \<le> maxWaitTime cfg"
  shows "script_poll_loop cfg w h backfill startTime retries s =
         script_poll_loop cfg w h backfill startTime (retries + n) ((round_404 w h (pollInterval cfg) ^^ n) s)"
  using assms(2,3)
proof (induction n)
  case 0
  show ?case by simp
next
  case (Suc n)
  let ?s = "(round_404 w h (pollInterval cfg) ^^ n) s"
  obtain r where r: "respond w (queries ?s) = Inr r" "http_status r = 404"
    using answers_404D [OF assms(1)] by blast
  have "script_poll_loop cfg w h backfill startTime retries s =
        script_poll_loop cfg w h backfill startTime (retries + n) ?s"
    using Suc by simp
  also have "\<dots> = script_poll_loop cfg w h backfill startTime (retries + n + 1)
                      (round_404 w h (pollInterval cfg) ?s)"
    using Suc.prems r by (intro script_round) simp_all
  finally show ?case by simp
qed

lemma app_rounds:
  assumes "\<And>k. answers_404 w k"
    and "retries + n \<le> maxRetries cfg"
    and "\<And>k. k < n \<Longrightarrow> now ((round_404 w h (pollInterval cfg) ^^ k) s) - startTime \<le> maxWaitTime cfg"
  shows "app_poll_loop cfg w h startTime retries s =
         app_poll_loop cfg w h startTime (retries + n) ((round_404 w h (pollInterval cfg) ^^ n) s)"
  using assms(2,3)
proof (induction n)
  case 0
  show ?case by simp
next
  case (Suc n)
  let ?s = "(round_404 w h (pollInterval cfg) ^^ n) s"
  obtain r where r: "respond w (queries ?s) = Inr r" "http_status r = 404"
    using answers_404D [OF assms(1)] by blast
  have "app_poll_loop cfg w h startTime retries s = app_poll_loop cfg w h startTime (retries + n) ?s"
    using Suc by simp
  also have "\<dots> = app_poll_loop cfg w h startTime (retries + n + 1)
                      (round_404 w h (pollInterval cfg) ?s)"
    using Suc.prems r by (intro app_round) simp_all
  finally show ?case by simp
qed

lemma always_404_answers: "answers_404 (always_404 ms) k"
  by (simp add: answers_404_def always_404_def not_found_def)

lemma always_404_latency: "latency (always_404 ms) k = ms"
  by (simp add: always_404_def)

text \<open>Against an authority that always answers 404 the app's poller ends with an error,
  and the error is one of the two bounds: the deadline or the retry budget.\<close>

lemma app_loop_exhausted:
  assumes "\<not> retries < maxRetries cfg"
  shows "app_poll_loop cfg w h startTime retries s = (Inl retries_exceeded_error, s)"
  using assms by (subst app_poll_loop.simps) simp

lemma app_poll_always_404:
  assumes "\<And>k. answers_404 w k"
  shows "\<exists>e. fst (app_poll_loop cfg w h startTime retries s) = Inl e
           \<and> (e = retries_exceeded_error
                \<or> (\<exists>elapsed. maxWaitTime cfg < elapsed \<and> e = app_timeout_error elapsed))"
proof (induction "maxRetries cfg - retries" arbitrary: retries s)
  case 0
  then have "\<not> retries < maxRetries cfg" by simp
  then have "app_poll_loop cfg w h startTime retries s = (Inl retries_exceeded_error, s)"
    by (rule app_loop_exhausted)
  then show ?case by simp
next
  case (Suc n)
  then have more: "retries < maxRetries cfg" by simp
  show ?case
  proof (cases "maxWaitTime cfg < now s - startTime")
    case True
    then have "app_poll_loop cfg w h startTime retries s =
        (Inl (app_timeout_error (now s - startTime)), s)"
      using more by (rule app_loop_late)
    with True show ?thesis by auto
  next
    case False
    then have early: "now s - startTime \<le> maxWaitTime cfg" by simp
    obtain r where r: "respond w (queries s) = Inr r" "http_status r = 404"
      using answers_404D assms by blast
    have step: "app_poll_loop cfg w h startTime retries s =
        app_poll_loop cfg w h startTime (retries + 1) (round_404 w h (pollInterval cfg) s)"
      using more early r by (rule app_round)
    have "n = maxRetries cfg - (retries + 1)" using Suc.hyps(2) by simp
    then have "\<exists>e. fst (app_poll_loop cfg w h startTime (retries + 1)
                    (round_404 w h (pollInterval cfg) s)) = Inl e
         \<and> (e = retries_exceeded_error
              \<or> (\<exists>elapsed. maxWaitTime cfg < elapsed \<and> e = app_timeout_error elapsed))"
      by (rule Suc.hyps(1))
    with step show ?thesis by simp
  qed
qed

text \<open>
  C3. Against an authority that always answers 404 and takes one second per request,
  under the shipped configuration (150 retries, 2 s interval, 300 s deadline), the
  deadline is first seen exceeded after 101 requests, at 303 s. The app's poller throws
  its timeout there. The script's poller throws the timeout inside its own \<open>try\<close>,
  catches it, and sleeps through the 48 retries that are left: it sends no further
  request and throws at 399 s.
\<close>

theorem script_getAttestation_overruns_deadline:
  "fst (script_getAttestation CIRCLE_API_CONFIG (always_404 1000) h backfill (started_at 0))
     = Inl (mkError ''Getting attestation timeout'')
   \<and> queries (snd (script_getAttestation CIRCLE_API_CONFIG (always_404 1000) h backfill (started_at 0))) = 101
   \<and> now (snd (script_getAttestation CIRCLE_API_CONFIG (always_404 1000) h backfill (started_at 0))) = 399000
   \<and> fst (app_getAttestation CIRCLE_API_CONFIG (always_404 1000) h (started_at 0))
     = Inl (app_timeout_error 303000)
   \<and> queries (snd (app_getAttestation CIRCLE_API_CONFIG (always_404 1000) h (started_at 0))) = 101
   \<and> now (snd (app_getAttestation CIRCLE_API_CONFIG (always_404 1000) h (started_at 0))) = 303000"
proof -
  let ?cfg = CIRCLE_API_CONFIG
  let ?w = "always_404 1000"
  let ?s = "(round_404 ?w h 2000 ^^ 101) (started_at 0)"
  have cfg: "pollInterval ?cfg = 2000" "maxRetries ?cfg = 150" "maxWaitTime ?cfg = 300000"
    by (simp_all add: CIRCLE_API_CONFIG_def)
  have now_k: "now ((round_404 ?w h 2000 ^^ k) (started_at 0)) = k * 3000" for k
    by (simp add: now_rounds [where ms = 1000] always_404_latency started_at_def)
  have now_s: "now ?s = 303000" by (simp add: now_k)
  have start: "now (started_at 0) = 0" by (simp add: started_at_def)
  have q_s: "queries ?s = 101" by (simp add: queries_rounds started_at_def)
  have "script_poll_loop ?cfg ?w h backfill 0 0 (started_at 0) =
        script_poll_loop ?cfg ?w h backfill 0 (0 + 101) ((round_404 ?w h (pollInterval ?cfg) ^^ 101) (started_at 0))"
    by (rule script_rounds) (simp_all add: always_404_answers cfg now_k)
  also have "\<dots> = script_poll_loop ?cfg ?w h backfill 0 101 ?s"
    by (simp add: cfg)
  also have "\<dots> = (Inl (mkError ''Getting attestation timeout''),
                    (sleep (pollInterval ?cfg) ^^ (maxRetries ?cfg - 1 - 101)) ?s)"
    by (rule script_loop_late) (simp_all add: cfg now_s)
  finally have script: "script_getAttestation ?cfg ?w h backfill (started_at 0) =
      (Inl (mkError ''Getting attestation timeout''), (sleep 2000 ^^ 48) ?s)"
    by (simp add: script_getAttestation_def start cfg)
  have "app_poll_loop ?cfg ?w h 0 0 (started_at 0) =
        app_poll_loop ?cfg ?w h 0 (0 + 101) ((round_404 ?w h (pollInterval ?cfg) ^^ 101) (started_at 0))"
    by (rule app_rounds) (simp_all add: always_404_answers cfg now_k)
  also have "\<dots> = app_poll_loop ?cfg ?w h 0 101 ?s"
    by (simp add: cfg)
  also have "\<dots> = (Inl (app_timeout_error (now ?s - 0)), ?s)"
    by (rule app_loop_late) (simp_all add: cfg now_s)
  finally have app: "app_getAttestation ?cfg ?w h (started_at 0) =
      (Inl (app_timeout_error 303000), ?s)"
    by (simp add: app_getAttestation_def start now_s)
  show ?thesis
    by (simp only: script app fst_conv snd_conv now_sleeps queries_sleeps now_s q_s) simp
qed

section \<open>Source-chain sender\<close>

text \<open>
  The result of \<open>parseFloat\<close>: a finite double is a rational number; comparisons with
  \<open>NaN\<close> are false.
\<close>

datatype js_number = NaN | NegInfinity | Num rat | PosInfinity


text \<open>\<open>BaseSendResult\<close> of the app, \<open>CrossChainResult\<close> of the script's sender: the same
  three fields. An absent property is \<open>None\<close>.\<close>

record BaseSendResult =
  send_txHash :: string
  send_nonce :: "string option"
  send_messageBytes :: "string option"

record log_entry =
  topics :: "string list"
  log_data :: string

record receipt =
  receipt_hash :: string
  logs :: "log_entry list"

text \<open>
  The source chain, the signer and the ethers library as the senders use them.
  \<^item> \<open>signerAddress\<close>: \<open>signer.getAddress()\<close>;
  \<^item> \<open>usdcBalance a\<close>: \<open>balanceOf(a)\<close> formatted with the token's decimals by \<open>formatUnits\<close>;
  \<^item> \<open>usdcDecimals\<close>, \<open>latestNonce\<close>: \<open>decimals()\<close> and \<open>signer.getNonce('latest')\<close>;
  \<^item> \<open>parseUnits\<close>, \<open>parseFloat\<close>, \<open>ethers_id\<close>, \<open>abiDecodeBytes\<close>: library functions;
  \<^item> \<open>approveTx nonce\<close>: the approval sent (with the nonce, when one is given) and mined;
  \<^item> \<open>burnReceipt amountWei domain mintRecipient nonce\<close>: the app's \<open>depositForBurn\<close>
    transaction sent with the nonce and mined;
  \<^item> \<open>attemptNonce k\<close>: \<open>signer.getNonce()\<close> in the \<open>k\<close>-th attempt of the script;
  \<^item> \<open>burnAttempt k amountWei domain mintRecipient\<close>: in the \<open>k\<close>-th attempt of the
    script, the call of the contract's \<open>depositForBurn\<close>, the confirmation of the
    transaction and \<open>extractMessageFromTransaction\<close>; any of them may throw.
\<close>

record source_chain =
  signerAddress :: "js_error + string"
  usdcBalance :: "string \<Rightarrow> js_error + string"
  usdcDecimals :: "js_error + nat"
  latestNonce :: "js_error + nat"
  parseUnits :: "string \<Rightarrow> nat \<Rightarrow> js_error + nat"
  parseFloat :: "string \<Rightarrow> js_number"
  ethers_id :: "string \<Rightarrow> string"
  abiDecodeBytes :: "string \<Rightarrow> js_error + string"
  approveTx :: "nat option \<Rightarrow> js_error + string"
  burnReceipt :: "nat \<Rightarrow> nat \<Rightarrow> string \<Rightarrow> nat \<Rightarrow> js_error + receipt"
  attemptNonce :: "nat \<Rightarrow> js_error + nat"
  burnAttempt :: "nat \<Rightarrow> nat \<Rightarrow> nat \<Rightarrow> string \<Rightarrow> js_error + BaseSendResult"

text \<open>What a sender does on the chain, in order.\<close>

datatype chain_call =
    ReadBalance string
  | ReadNonce
  | Approve "nat option"
  | DepositForBurn nat nat string "nat option"
  | Backoff nat

definition APTOS_DOMAIN_ID :: nat where
  "APTOS_DOMAIN_ID = 9"

subsection \<open>The script's sender (corss/src/base-sender.ts)\<close>



text \<open>The \<open>try\<close> block of one attempt of \<open>depositForBurn\<close>. The nonce is read and logged
  but not passed to the transaction; when reading it throws, the contract is not called.\<close>

definition script_burn_try ::
  "source_chain \<Rightarrow> string \<Rightarrow> string \<Rightarrow> nat \<Rightarrow> (js_error + BaseSendResult) \<times> chain_call list" where
  "script_burn_try w amount recipientAddress attempt =
     (case signerAddress w of
        Inl e \<Rightarrow> (Inl e, [])
      | Inr sender \<Rightarrow>
          if \<not> startsWith recipientAddress ''0x'' \<or> length recipientAddress \<noteq> 66 then
            (Inl (mkError ''Invalid Aptos address format, should be 64-character hexadecimal address''), [])
          else
            (case usdcDecimals w of
               Inl e \<Rightarrow> (Inl e, [])
             | Inr decimals \<Rightarrow>
                 (case parseUnits w amount decimals of
                    Inl e \<Rightarrow> (Inl e, [])
                  | Inr amountWei \<Rightarrow>
                      (case aptosAddressToBytes32 recipientAddress of
                         Inl e \<Rightarrow> (Inl e, [])
                       | Inr mintRecipient \<Rightarrow>
                           (case attemptNonce w attempt of
                              Inl e \<Rightarrow> (Inl e, [ReadNonce])
                            | Inr currentNonce \<Rightarrow>
                                (burnAttempt w attempt amountWei APTOS_DOMAIN_ID mintRecipient,
                                 [ReadNonce,
                                  DepositForBurn amountWei APTOS_DOMAIN_ID mintRecipient None]))))))"

text \<open>
  \<^verbatim>\<open>
  for (let attempt = 1; attempt <= maxRetries; attempt++) {
    try { ... return {...}; }
    catch (error: any) {
      lastError = error;
      if (error.code === 'NONCE_EXPIRED' && attempt < maxRetries) {
        await new Promise(resolve => setTimeout(resolve, 2000));
        continue;
      }
      if (attempt === maxRetries) { throw error; }
    }
  }
  throw lastError || new Error('Cross-chain transfer failed');
  \<close>
\<close>

definition burn_maxRetries :: nat where
  "burn_maxRetries = 3"

function script_burn_loop ::
  "source_chain \<Rightarrow> string \<Rightarrow> string \<Rightarrow> nat \<Rightarrow> js_error option \<Rightarrow> chain_call list
     \<Rightarrow> (js_error + BaseSendResult) \<times> chain_call list" where
  "script_burn_loop w amount recipientAddress attempt lastError calls =
     (if attempt \<le> burn_maxRetries then
        (case script_burn_try w amount recipientAddress attempt of
           (Inr r, made) \<Rightarrow> (Inr r, calls @ made)
         | (Inl error, made) \<Rightarrow>
             if code error = Some ''NONCE_EXPIRED'' \<and> attempt < burn_maxRetries then
               script_burn_loop w amount recipientAddress (attempt + 1) (Some error)
                 (calls @ made @ [Backoff 2000])
             else if attempt = burn_maxRetries then (Inl error, calls @ made)
             else script_burn_loop w amount recipientAddress (attempt + 1) (Some error) (calls @ made))
      else
        (Inl (case lastError of Some e \<Rightarrow> e | None \<Rightarrow> mkError ''Cross-chain transfer failed''), calls))"
  by pat_completeness auto
termination
  by (relation "measure (\<lambda>(w, amount, recipientAddress, attempt, lastError, calls). burn_maxRetries + 1 - attempt)")
     auto

definition script_depositForBurn ::
  "source_chain \<Rightarrow> string \<Rightarrow> string \<Rightarrow> (js_error + BaseSendResult) \<times> chain_call list" where
  "script_depositForBurn w amount recipientAddress = script_burn_loop w amount recipientAddress 1 None []"



subsection \<open>The app's sender (api/cross-chain/base-sender.ts)\<close>

text \<open>Class \<open>BaseCCTPSender\<close> of the app (Saffron), headed "simplified version, adapted for
  React Native"; in the source tree its text follows that of \<open>api/cross-chain/config.ts\<close>.
  Its \<open>executeFullCrossChain\<close> is documented as "approve + cross-chain" and the class has no
  method that reads a balance.\<close>

definition app_approveUSDC ::
  "source_chain \<Rightarrow> string \<Rightarrow> nat option \<Rightarrow> (js_error + string) \<times> chain_call list" where
  "app_approveUSDC w amount nonce =
     (case usdcDecimals w of
        Inl e \<Rightarrow> (Inl e, [])
      | Inr decimals \<Rightarrow>
          (case nonce of
             Some n \<Rightarrow> (approveTx w (Some n), [Approve (Some n)])
           | None \<Rightarrow>
               (case latestNonce w of
                  Inl e \<Rightarrow> (Inl e, [ReadNonce])
                | Inr n \<Rightarrow> (approveTx w (Some n), [ReadNonce, Approve (Some n)]))))"

text \<open>\<open>receipt.logs.find(log => log.topics[0] === topic)\<close>; \<open>topics[0]\<close> of a log without
  topics is undefined and equals no topic.\<close>

definition has_topic0 :: "string \<Rightarrow> log_entry \<Rightarrow> bool" where
  "has_topic0 topic l = (case topics l of [] \<Rightarrow> False | t # ts \<Rightarrow> t = topic)"

definition topic1 :: "log_entry \<Rightarrow> string option" where
  "topic1 l = (case topics l of t0 # t1 # ts \<Rightarrow> Some t1 | _ \<Rightarrow> None)"

definition app_read_receipt :: "source_chain \<Rightarrow> receipt \<Rightarrow> js_error + BaseSendResult" where
  "app_read_receipt w rc =
     (case find (has_topic0 (ethers_id w ''MessageSent(bytes)'')) (logs rc) of
        None \<Rightarrow> Inl (mkError ''MessageSent event not found'')
      | Some messageSentLog \<Rightarrow>
          (case abiDecodeBytes w (log_data messageSentLog) of
             Inl e \<Rightarrow> Inl e
           | Inr decoded \<Rightarrow>
               Inr \<lparr>send_txHash = receipt_hash rc,
                    send_nonce =
                      (case find (has_topic0 (ethers_id w
                          ''DepositForBurn(uint64,address,uint256,address,bytes32,uint32,bytes32,bytes32)''))
                          (logs rc) of
                         None \<Rightarrow> Some ''0''
                       | Some depositLog \<Rightarrow> topic1 depositLog),
                    send_messageBytes = Some decoded\<rparr>))"

definition app_depositForBurn ::
  "source_chain \<Rightarrow> string \<Rightarrow> string \<Rightarrow> nat option \<Rightarrow> (js_error + BaseSendResult) \<times> chain_call list" where
  "app_depositForBurn w amount recipientAddress nonce =
     (case usdcDecimals w of
        Inl e \<Rightarrow> (Inl e, [])
      | Inr decimals \<Rightarrow>
          (case parseUnits w amount decimals of
             Inl e \<Rightarrow> (Inl e, [])
           | Inr amountWei \<Rightarrow>
               (case aptosAddressToBytes32 recipientAddress of
                  Inl e \<Rightarrow> (Inl e, [])
                | Inr mintRecipient \<Rightarrow>
                    (case (case nonce of
                             Some n \<Rightarrow> (Inr n, [])
                           | None \<Rightarrow> (latestNonce w, [ReadNonce])) of
                       (Inl e, read) \<Rightarrow> (Inl e, read)
                     | (Inr n, read) \<Rightarrow>
                         (case burnReceipt w amountWei APTOS_DOMAIN_ID mintRecipient n of
                            Inl e \<Rightarrow>
                              (Inl e, read @ [DepositForBurn amountWei APTOS_DOMAIN_ID mintRecipient (Some n)])
                          | Inr rc \<Rightarrow>
                              (app_read_receipt w rc,
                               read @ [DepositForBurn amountWei APTOS_DOMAIN_ID mintRecipient (Some n)]))))))"

definition app_executeFullCrossChain ::
  "source_chain \<Rightarrow> string \<Rightarrow> string \<Rightarrow> (js_error + BaseSendResult) \<times> chain_call list" where
  "app_executeFullCrossChain w amount recipientAddress =
     (case latestNonce w of
        Inl e \<Rightarrow> (Inl e, [ReadNonce])
      | Inr initialNonce \<Rightarrow>
          (case app_approveUSDC w amount (Some initialNonce) of
             (Inl e, approved) \<Rightarrow> (Inl e, ReadNonce # approved)
           | (Inr approveHash, approved) \<Rightarrow>
               (case app_depositForBurn w amount recipientAddress (Some (initialNonce + 1)) of
                  (result, burned) \<Rightarrow> (result, ReadNonce # approved @ burned))))"

subsection \<open>Properties of the senders\<close>

text \<open>Stub chains for concrete runs: a signer with the given formatted balance, nonce 7 and
  a 6-decimal token; the \<open>k\<close>-th burn attempt of the script ends as \<open>attempts k\<close> says.\<close>

definition stub_receipt :: receipt where
  "stub_receipt = \<lparr>receipt_hash = ''0xb1'',
     logs = [\<lparr>topics = [''MessageSent(bytes)''], log_data = ''0x0102''\<rparr>]\<rparr>"

definition stub_source_chain :: "string \<Rightarrow> (nat \<Rightarrow> js_error + BaseSendResult) \<Rightarrow> source_chain" where
  "stub_source_chain balance attempts =
     \<lparr>signerAddress = Inr ''0x5e'',
      usdcBalance = (\<lambda>a. Inr balance),
      usdcDecimals = Inr 6,
      latestNonce = Inr 7,
      parseUnits = (\<lambda>s d. if s = ''3.0'' then Inr 3000000 else if s = ''1.0'' then Inr 1000000
                           else Inl (mkError ''invalid FixedNumber string value'')),
      parseFloat = (\<lambda>s. if s = ''1.0'' then Num 1 else if s = ''2.0'' then Num 2
                         else if s = ''3.0'' then Num 3 else NaN),
      ethers_id = (\<lambda>s. s),
      abiDecodeBytes = (\<lambda>d. Inr d),
      approveTx = (\<lambda>n. Inr ''0xa1''),
      burnReceipt = (\<lambda>amountWei domain mintRecipient n. Inr stub_receipt),
      attemptNonce = (\<lambda>k. Inr 7),
      burnAttempt = (\<lambda>k amountWei domain mintRecipient. attempts k)\<rparr>"

definition stub_recipient :: string where
  "stub_recipient = ''0x69091fbab5f7d635ee7ac5098cf0c1efbe31d68fec0f2cd565e8d168daf52832''"

definition stub_burned :: BaseSendResult where
  "stub_burned = \<lparr>send_txHash = ''0xb1'', send_nonce = Some ''0x2a'', send_messageBytes = Some ''0x0102''\<rparr>"

definition backoff_after :: "js_error \<Rightarrow> chain_call list" where
  "backoff_after e = (if code e = Some ''NONCE_EXPIRED'' then [Backoff 2000] else [])"

declare script_burn_loop.simps [simp del]

lemma script_burn_loop_unfold:
  "script_burn_loop w amount rcpt attempt lastError calls =
     (if attempt \<le> 3 then
        (case script_burn_try w amount rcpt attempt of
           (Inr r, made) \<Rightarrow> (Inr r, calls @ made)
         | (Inl error, made) \<Rightarrow>
             if attempt = 3 then (Inl error, calls @ made)
             else script_burn_loop w amount rcpt (attempt + 1) (Some error)
                    (calls @ made @ backoff_after error))
      else
        (Inl (case lastError of Some e \<Rightarrow> e | None \<Rightarrow> mkError ''Cross-chain transfer failed''), calls))"
  by (subst script_burn_loop.simps)
     (auto simp: burn_maxRetries_def backoff_after_def split: prod.splits sum.splits)

text \<open>
  C7 (as the code has it). \<open>depositForBurn\<close> of the script makes at most three attempts.
  An attempt that throws is followed by the next attempt whatever the error is, as long
  as it was not the third; only after a \<open>NONCE_EXPIRED\<close> error does the loop wait the
  fixed 2000 ms first. The error of the third attempt is the one thrown to the caller,
  and the first attempt that succeeds gives the result.
\<close>

theorem script_depositForBurn_retries_every_error:
  "fst (script_depositForBurn w amount rcpt) =
     (case fst (script_burn_try w amount rcpt 1) of
        Inr r \<Rightarrow> Inr r
      | Inl e1 \<Rightarrow>
          (case fst (script_burn_try w amount rcpt 2) of
             Inr r \<Rightarrow> Inr r
           | Inl e2 \<Rightarrow> fst (script_burn_try w amount rcpt 3)))
   \<and> snd (script_depositForBurn w amount rcpt) =
     (case fst (script_burn_try w amount rcpt 1) of
        Inr r \<Rightarrow> snd (script_burn_try w amount rcpt 1)
      | Inl e1 \<Rightarrow>
          snd (script_burn_try w amount rcpt 1) @ backoff_after e1 @
          (case fst (script_burn_try w amount rcpt 2) of
             Inr r \<Rightarrow> snd (script_burn_try w amount rcpt 2)
           | Inl e2 \<Rightarrow>
               snd (script_burn_try w amount rcpt 2) @ backoff_after e2 @
               snd (script_burn_try w amount rcpt 3)))"
proof -
  obtain o1 c1 where t1: "script_burn_try w amount rcpt 1 = (o1, c1)" by (cases "script_burn_try w amount rcpt 1")
  obtain o2 c2 where t2: "script_burn_try w amount rcpt 2 = (o2, c2)" by (cases "script_burn_try w amount rcpt 2")
  obtain o3 c3 where t3: "script_burn_try w amount rcpt 3 = (o3, c3)" by (cases "script_burn_try w amount rcpt 3")
  have t1': "script_burn_try w amount rcpt (Suc 0) = (o1, c1)" using t1 by simp
  have third: "script_burn_loop w amount rcpt 3 le calls = (o3, calls @ c3)" for le calls
    by (subst script_burn_loop_unfold) (simp add: t3 split: sum.splits)
  have second: "script_burn_loop w amount rcpt 2 le calls =
      (case o2 of Inr r \<Rightarrow> (Inr r, calls @ c2)
       | Inl e2 \<Rightarrow> (o3, calls @ c2 @ backoff_after e2 @ c3))" for le calls
    by (subst script_burn_loop_unfold) (simp add: t2 third split: sum.splits)
  have second': "script_burn_loop w amount rcpt (Suc (Suc 0)) le calls =
      (case o2 of Inr r \<Rightarrow> (Inr r, calls @ c2)
       | Inl e2 \<Rightarrow> (o3, calls @ c2 @ backoff_after e2 @ c3))" for le calls
    using second [of le calls] by (simp add: numeral_2_eq_2)
  have first: "script_burn_loop w amount rcpt 1 le calls =
      (case o1 of Inr r \<Rightarrow> (Inr r, calls @ c1)
       | Inl e1 \<Rightarrow>
           (case o2 of Inr r \<Rightarrow> (Inr r, calls @ c1 @ backoff_after e1 @ c2)
            | Inl e2 \<Rightarrow> (o3, calls @ c1 @ backoff_after e1 @ c2 @ backoff_after e2 @ c3)))" for le calls
    by (subst script_burn_loop_unfold) (simp add: t1' second' split: sum.splits)
  have start: "script_burn_loop w amount rcpt (Suc 0) None [] =
      (case o1 of Inr r \<Rightarrow> (Inr r, c1)
       | Inl e1 \<Rightarrow>
           (case o2 of Inr r \<Rightarrow> (Inr r, c1 @ backoff_after e1 @ c2)
            | Inl e2 \<Rightarrow> (o3, c1 @ backoff_after e1 @ c2 @ backoff_after e2 @ c3)))"
    using first [of None "[]"] by (simp split: sum.splits)
  show ?thesis
    by (simp add: script_depositForBurn_def start t1' t2 t3 split: sum.splits)
qed

text \<open>
  C7 as stated fails: a first attempt that throws an error other than the stale nonce
  (here a reverted call) does not propagate; the burn is sent a second time at once.
\<close>

theorem script_depositForBurn_retry_counterexample:
  "script_depositForBurn
     (stub_source_chain ''3.0''
        (\<lambda>k. if k = 1 then Inl (JsError (Some ''CALL_EXCEPTION'') ''execution reverted'') else Inr stub_burned))
     ''3.0'' stub_recipient
   = (Inr stub_burned,
      [ReadNonce, DepositForBurn 3000000 9 stub_recipient None,
       ReadNonce, DepositForBurn 3000000 9 stub_recipient None])"
  by (simp add: script_depositForBurn_def script_burn_loop_unfold script_burn_try_def
      stub_source_chain_def stub_recipient_def startsWith_def aptosAddressToBytes32_def
      APTOS_DOMAIN_ID_def backoff_after_def)

definition nonce_then_revert :: "nat \<Rightarrow> js_error + BaseSendResult" where
  "nonce_then_revert k =
     (if k = 1 then Inl (JsError (Some ''NONCE_EXPIRED'') ''nonce has already been used'')
      else if k = 2 then Inl (JsError (Some ''CALL_EXCEPTION'') ''execution reverted'')
      else Inr stub_burned)"

theorem script_depositForBurn_retries_every_error_witness:
  "fst (script_depositForBurn (stub_source_chain ''3.0'' nonce_then_revert) ''3.0'' stub_recipient)
     = Inr stub_burned
   \<and> snd (script_depositForBurn (stub_source_chain ''3.0'' nonce_then_revert) ''3.0'' stub_recipient)
     = [ReadNonce, DepositForBurn 3000000 9 stub_recipient None, Backoff 2000,
        ReadNonce, DepositForBurn 3000000 9 stub_recipient None,
        ReadNonce, DepositForBurn 3000000 9 stub_recipient None]"
  using script_depositForBurn_retries_every_error
          [of "stub_source_chain ''3.0'' nonce_then_revert" "''3.0''" stub_recipient]
  by (simp add: script_burn_try_def stub_source_chain_def stub_recipient_def startsWith_def
      aptosAddressToBytes32_def APTOS_DOMAIN_ID_def backoff_after_def nonce_then_revert_def)




text \<open>
  What the two senders do with the 66-character address with an inner \<open>0x\<close>. The
  script's \<open>depositForBurn\<close> tests \<open>startsWith('0x')\<close> and the length before it calls the
  codec and throws in each of its attempts. The app's \<open>depositForBurn\<close> has no such test: it
  sends the burn with the shortened address as the mint recipient.
\<close>

lemma senders_inner_0x:
  "fst (script_depositForBurn (stub_source_chain ''5.0'' (\<lambda>k. Inr stub_burned)) ''1.0''
          ''00x9091fbab5f7d635ee7ac5098cf0c1efbe31d68fec0f2cd565e8d168daf52832'')
     = Inl (mkError ''Invalid Aptos address format, should be 64-character hexadecimal address'')"
  "snd (app_depositForBurn (stub_source_chain ''5.0'' (\<lambda>k. Inr stub_burned)) ''1.0''
          ''00x9091fbab5f7d635ee7ac5098cf0c1efbe31d68fec0f2cd565e8d168daf52832'' (Some 8))
     = [DepositForBurn 1000000 9
          ''0x09091fbab5f7d635ee7ac5098cf0c1efbe31d68fec0f2cd565e8d168daf52832'' (Some 8)]"
  by (simp_all add: script_depositForBurn_def script_burn_loop_unfold script_burn_try_def
      app_depositForBurn_def stub_source_chain_def aptosAddressToBytes32_def startsWith_def
      APTOS_DOMAIN_ID_def)

section \<open>Destination-chain receiver\<close>

text \<open>
  \<open>BigInt(string)\<close>: surrounding whitespace is ignored, the empty string is \<open>0n\<close>, a
  prefix \<open>0x\<close>, \<open>0o\<close> or \<open>0b\<close> (either case) selects the base, a decimal numeral may
  carry one sign; anything else is a \<open>SyntaxError\<close>. \<open>toString()\<close> of a BigInt is its
  decimal numeral.
\<close>

definition digit_value :: "char \<Rightarrow> nat option" where
  "digit_value c =
     (let n = (of_char c :: nat) in
      if 48 \<le> n \<and> n \<le> 57 then Some (n - 48)
      else if 97 \<le> n \<and> n \<le> 102 then Some (n - 87)
      else if 65 \<le> n \<and> n \<le> 70 then Some (n - 55)
      else None)"

definition is_digit_of :: "nat \<Rightarrow> char \<Rightarrow> bool" where
  "is_digit_of base c = (case digit_value c of None \<Rightarrow> False | Some d \<Rightarrow> d < base)"

definition digits_value :: "nat \<Rightarrow> string \<Rightarrow> nat option" where
  "digits_value base s =
     (if s = [] \<or> \<not> list_all (is_digit_of base) s then None
      else Some (foldl (\<lambda>acc c. acc * base + (case digit_value c of None \<Rightarrow> 0 | Some d \<Rightarrow> d)) 0 s))"

definition is_js_whitespace :: "char \<Rightarrow> bool" where
  "is_js_whitespace c = (of_char c \<in> {9, 10, 11, 12, 13, 32, 160 :: nat})"

definition trim :: "string \<Rightarrow> string" where
  "trim s = rev (dropWhile is_js_whitespace (rev (dropWhile is_js_whitespace s)))"

definition bigint_syntax_error :: "string \<Rightarrow> js_error" where
  "bigint_syntax_error s = mkError (''Cannot convert '' @ s @ '' to a BigInt'')"

definition unsigned_value :: "nat \<Rightarrow> string \<Rightarrow> string \<Rightarrow> js_error + int" where
  "unsigned_value base ds whole =
     (case digits_value base ds of None \<Rightarrow> Inl (bigint_syntax_error whole) | Some n \<Rightarrow> Inr (int n))"

definition BigInt :: "string \<Rightarrow> js_error + int" where
  "BigInt str =
     (let s = trim str in
      if s = [] then Inr 0
      else if startsWith s ''0x'' \<or> startsWith s ''0X'' then unsigned_value 16 (drop 2 s) str
      else if startsWith s ''0o'' \<or> startsWith s ''0O'' then unsigned_value 8 (drop 2 s) str
      else if startsWith s ''0b'' \<or> startsWith s ''0B'' then unsigned_value 2 (drop 2 s) str
      else if startsWith s ''-'' then
        (case unsigned_value 10 (drop 1 s) str of Inl e \<Rightarrow> Inl e | Inr n \<Rightarrow> Inr (- n))
      else if startsWith s ''+'' then unsigned_value 10 (drop 1 s) str
      else unsigned_value 10 s str)"

definition show_int :: "int \<Rightarrow> string" where
  "show_int i = (if i < 0 then ''-'' @ show_nat (nat (- i)) else show_nat (nat i))"

record AptosReceiveResult =
  recv_txHash :: string
  recv_success :: bool
  recv_usdcAmount :: "string option"

record transaction_result =
  txn_hash :: string
  txn_success :: bool
  txn_vm_status :: string

text \<open>
  The destination chain, the Aptos SDK and the runtime as the receivers use them.
  \<^item> \<open>accountFromKey\<close>: the address of \<open>Account.fromPrivateKey\<close>, or what it throws;
  \<^item> \<open>fungibleStore k a\<close>, \<open>coinStore k a\<close>: in the \<open>k\<close>-th balance check (0 before the
    transaction, 1 after it), the balance property of the account resource (\<open>None\<close> when
    the property is absent), or what \<open>getAccountResource\<close> throws;
  \<^item> \<open>submitScript sender bytecode message attestation\<close>: the transaction built from the
    script with the two byte-vector arguments (\<open>hexToBytes\<close> of the two strings), signed,
    submitted and waited for; any of the three may throw;
  \<^item> \<open>atob_defined\<close>: whether the runtime has \<open>atob\<close>; \<open>scriptFile\<close>: what reading the
    compiled script from disk gives the script's receiver.
\<close>

record destination_chain =
  accountFromKey :: "string \<Rightarrow> js_error + string"
  fungibleStore :: "nat \<Rightarrow> string \<Rightarrow> js_error + string option"
  coinStore :: "nat \<Rightarrow> string \<Rightarrow> js_error + string option"
  submitScript :: "string \<Rightarrow> byte list \<Rightarrow> string \<Rightarrow> string \<Rightarrow> js_error + transaction_result"
  atob_defined :: bool
  scriptFile :: "js_error + byte list"

text \<open>\<open>x || '0'\<close> for an optional string property.\<close>

definition or_zero :: "string option \<Rightarrow> string" where
  "or_zero x = (if truthy x then or_empty x else ''0'')"

definition failed_receive :: AptosReceiveResult where
  "failed_receive = \<lparr>recv_txHash = [], recv_success = False, recv_usdcAmount = Some ''0''\<rparr>"

text \<open>The last statements of both receivers' \<open>try\<close> blocks:
  \<^verbatim>\<open>
  if (!txnResult.success) { throw new Error(`Transaction failed: ${txnResult.vm_status}`); }
  const balanceAfter = await this.checkUSDCBalance(accountAddress);
  const receivedAmount = (BigInt(balanceAfter) - BigInt(balanceBefore)).toString();
  return { txHash: pendingTxn.hash, success: true, usdcAmount: receivedAmount };
  \<close>\<close>

definition report_receive :: "transaction_result \<Rightarrow> string \<Rightarrow> string \<Rightarrow> js_error + AptosReceiveResult" where
  "report_receive txnResult balanceBefore balanceAfter =
     (if \<not> txn_success txnResult then
        Inl (mkError (''Transaction failed: '' @ txn_vm_status txnResult))
      else
        (case BigInt balanceAfter of
           Inl e \<Rightarrow> Inl e
         | Inr after \<Rightarrow>
             (case BigInt balanceBefore of
                Inl e \<Rightarrow> Inl e
              | Inr before \<Rightarrow>
                  Inr \<lparr>recv_txHash = txn_hash txnResult, recv_success = True,
                       recv_usdcAmount = Some (show_int (after - before))\<rparr>)))"

subsection \<open>The app's receiver (api/cross-chain/aptos-receiver.ts)\<close>

definition app_checkUSDCBalance :: "destination_chain \<Rightarrow> nat \<Rightarrow> string \<Rightarrow> string" where
  "app_checkUSDCBalance w k address =
     (case fungibleStore w k address of Inl e \<Rightarrow> ''0'' | Inr balance \<Rightarrow> or_zero balance)"

definition app_receive_try ::
  "destination_chain \<Rightarrow> string \<Rightarrow> string \<Rightarrow> string \<Rightarrow> js_error + AptosReceiveResult" where
  "app_receive_try w messageBytes attestation privateKey =
     (if messageBytes = [] \<or> \<not> startsWith messageBytes ''0x'' then
        Inl (mkError ''Invalid message bytes format'')
      else if attestation = [] \<or> \<not> startsWith attestation ''0x'' then
        Inl (mkError ''Invalid attestation format'')
      else
        (case accountFromKey w privateKey of
           Inl e \<Rightarrow> Inl e
         | Inr accountAddress \<Rightarrow>
             (let balanceBefore = app_checkUSDCBalance w 0 accountAddress in
              case base64ToBytes (atob_defined w) CCTP_SCRIPT_BASE64 of
                Inl e \<Rightarrow> Inl e
              | Inr bytecode \<Rightarrow>
                  (case submitScript w accountAddress bytecode messageBytes attestation of
                     Inl e \<Rightarrow> Inl e
                   | Inr txnResult \<Rightarrow>
                       report_receive txnResult balanceBefore
                         (app_checkUSDCBalance w 1 accountAddress)))))"

text \<open>The \<open>catch\<close> of \<open>receiveCCTPUSDC\<close> turns every error into the same failure value.\<close>

definition app_receiveCCTPUSDC ::
  "destination_chain \<Rightarrow> string \<Rightarrow> string \<Rightarrow> string \<Rightarrow> AptosReceiveResult" where
  "app_receiveCCTPUSDC w messageBytes attestation privateKey =
     (case app_receive_try w messageBytes attestation privateKey of
        Inl e \<Rightarrow> failed_receive
      | Inr r \<Rightarrow> r)"

subsection \<open>The script's receiver (corss/src/aptos-receiver.ts)\<close>






text \<open>A stub chain: one account, the fungible-store balance \<open>before\<close> in the first check
  and \<open>after\<close> in the second, and a transaction that ends as \<open>outcome\<close> says.\<close>

definition stub_destination_chain ::
  "string \<Rightarrow> string \<Rightarrow> js_error + transaction_result \<Rightarrow> destination_chain" where
  "stub_destination_chain before after outcome =
     \<lparr>accountFromKey = (\<lambda>k. Inr ''0xacc7''),
      fungibleStore = (\<lambda>k a. Inr (Some (if k = 0 then before else after))),
      coinStore = (\<lambda>k a. Inl (mkError ''resource not found'')),
      submitScript = (\<lambda>sender bytecode m a. outcome),
      atob_defined = True,
      scriptFile = Inr script_bytes\<rparr>"

definition stub_minted :: transaction_result where
  "stub_minted = \<lparr>txn_hash = ''0xd1'', txn_success = True, txn_vm_status = ''Executed successfully''\<rparr>"

definition stub_reverted :: transaction_result where
  "stub_reverted = \<lparr>txn_hash = ''0xd2'', txn_success = False, txn_vm_status = ''Move abort''\<rparr>"

subsection \<open>Properties of the receivers\<close>

lemma failed_receive_fields:
  "\<not> recv_success failed_receive"
  by (simp add: failed_receive_def)





text \<open>The decimal numeral that \<open>toString()\<close> writes is read back by \<open>BigInt\<close>.\<close>

lemma digit_cases: "d < 10 \<Longrightarrow> d \<in> {0, 1, 2, 3, 4, 5, 6, 7, 8, 9 :: nat}"
  by auto

lemma digit_value_digit_char: "d < 10 \<Longrightarrow> digit_value (digit_char d) = Some d"
  using digit_cases [of d] by (auto simp: digit_char_def digit_value_def)

lemma is_digit_digit_char: "d < 10 \<Longrightarrow> is_digit_of 10 (digit_char d)"
  by (simp add: is_digit_of_def digit_value_digit_char)

lemma show_nat_digits: "show_nat n \<noteq> [] \<and> list_all (is_digit_of 10) (show_nat n)"
proof (induction n rule: show_nat.induct)
  case (1 n)
  show ?case
  proof (cases "n < 10")
    case True
    then show ?thesis by (subst (1 2) show_nat.simps) (simp add: is_digit_digit_char)
  next
    case False
    with 1 show ?thesis by (subst (1 2) show_nat.simps) (simp add: is_digit_digit_char)
  qed
qed

definition decimal_step :: "nat \<Rightarrow> char \<Rightarrow> nat" where
  "decimal_step acc c = acc * 10 + (case digit_value c of None \<Rightarrow> 0 | Some d \<Rightarrow> d)"

lemma decimal_step_digit: "d < 10 \<Longrightarrow> decimal_step acc (digit_char d) = acc * 10 + d"
  by (simp add: decimal_step_def digit_value_digit_char)

lemma show_nat_value: "foldl decimal_step 0 (show_nat n) = n"
proof (induction n rule: show_nat.induct)
  case (1 n)
  show ?case
  proof (cases "n < 10")
    case True
    then show ?thesis
      by (subst show_nat.simps) (simp add: decimal_step_digit)
  next
    case False
    then have "foldl decimal_step 0 (show_nat (n div 10)) = n div 10" by (rule 1)
    with False show ?thesis
      by (subst show_nat.simps) (simp add: decimal_step_digit)
  qed
qed

lemma digits_value_show_nat: "digits_value 10 (show_nat n) = Some n"
  using show_nat_digits [of n] show_nat_value [of n]
  by (simp add: digits_value_def decimal_step_def [abs_def])

lemma decimal_digit_code: "is_digit_of 10 c \<Longrightarrow> 48 \<le> (of_char c :: nat) \<and> (of_char c :: nat) \<le> 57"
  by (auto simp: is_digit_of_def digit_value_def Let_def split: if_splits option.splits)

lemma decimal_not_whitespace: "is_digit_of 10 c \<Longrightarrow> \<not> is_js_whitespace c"
  using decimal_digit_code [of c] by (auto simp: is_js_whitespace_def)

lemma trim_guarded:
  assumes "s \<noteq> []" and "\<not> is_js_whitespace (hd s)" and "\<not> is_js_whitespace (last s)"
  shows "trim s = s"
proof -
  have "dropWhile is_js_whitespace s = s"
    using assms(1,2) by (cases s) simp_all
  moreover have "dropWhile is_js_whitespace (rev s) = rev s"
    using assms(1,3) by (cases "rev s") (simp_all add: hd_rev [symmetric])
  ultimately show ?thesis by (simp add: trim_def)
qed

lemma decimal_hd_last:
  assumes "s \<noteq> []" and "list_all (is_digit_of 10) s"
  shows "is_digit_of 10 (hd s)" and "is_digit_of 10 (last s)"
  using assms by (simp_all add: list_all_iff)

lemma startsWith_mem: "startsWith s p \<Longrightarrow> c \<in> set p \<Longrightarrow> c \<in> set s"
proof -
  assume "startsWith s p" and "c \<in> set p"
  then have "c \<in> set (take (length p) s)" by (simp add: startsWith_def)
  then show ?thesis by (rule in_set_takeD)
qed

lemma decimal_no_prefix:
  assumes "list_all (is_digit_of 10) s" and "c \<in> set p" and "\<not> is_digit_of 10 c"
  shows "\<not> startsWith s p"
proof
  assume "startsWith s p"
  then have "c \<in> set s" using assms(2) by (rule startsWith_mem)
  with assms(1) have "is_digit_of 10 c" by (simp add: list_all_iff)
  with assms(3) show False by simp
qed

lemma not_decimal:
  "\<not> is_digit_of 10 CHR ''x''" "\<not> is_digit_of 10 CHR ''X''" "\<not> is_digit_of 10 CHR ''o''"
  "\<not> is_digit_of 10 CHR ''O''" "\<not> is_digit_of 10 CHR ''b''" "\<not> is_digit_of 10 CHR ''B''"
  "\<not> is_digit_of 10 CHR ''-''" "\<not> is_digit_of 10 CHR ''+''"
  by (simp_all add: is_digit_of_def digit_value_def)

lemma BigInt_decimal:
  assumes "s \<noteq> []" and "list_all (is_digit_of 10) s"
  shows "BigInt s = unsigned_value 10 s s"
proof -
  have t: "trim s = s"
    using assms decimal_hd_last [OF assms] by (intro trim_guarded) (simp_all add: decimal_not_whitespace)
  have "\<not> startsWith s ''0x''"
    using decimal_no_prefix [OF assms(2), of "CHR ''x''" "''0x''"] by (simp add: not_decimal)
  moreover have "\<not> startsWith s ''0X''"
    using decimal_no_prefix [OF assms(2), of "CHR ''X''" "''0X''"] by (simp add: not_decimal)
  moreover have "\<not> startsWith s ''0o''"
    using decimal_no_prefix [OF assms(2), of "CHR ''o''" "''0o''"] by (simp add: not_decimal)
  moreover have "\<not> startsWith s ''0O''"
    using decimal_no_prefix [OF assms(2), of "CHR ''O''" "''0O''"] by (simp add: not_decimal)
  moreover have "\<not> startsWith s ''0b''"
    using decimal_no_prefix [OF assms(2), of "CHR ''b''" "''0b''"] by (simp add: not_decimal)
  moreover have "\<not> startsWith s ''0B''"
    using decimal_no_prefix [OF assms(2), of "CHR ''B''" "''0B''"] by (simp add: not_decimal)
  moreover have "\<not> startsWith s ''-''"
    using decimal_no_prefix [OF assms(2), of "CHR ''-''" "''-''"] by (simp add: not_decimal)
  moreover have "\<not> startsWith s ''+''"
    using decimal_no_prefix [OF assms(2), of "CHR ''+''" "''+''"] by (simp add: not_decimal)
  ultimately show ?thesis using assms(1) by (simp add: BigInt_def t)
qed

lemma BigInt_show_nat: "BigInt (show_nat n) = Inr (int n)"
  using show_nat_digits [of n]
  by (simp add: BigInt_decimal unsigned_value_def digits_value_show_nat)

lemma BigInt_minus:
  assumes "s \<noteq> []" and "list_all (is_digit_of 10) s"
  shows "BigInt (CHR ''-'' # s) =
         (case unsigned_value 10 s (CHR ''-'' # s) of Inl e \<Rightarrow> Inl e | Inr n \<Rightarrow> Inr (- n))"
proof -
  have "\<not> is_js_whitespace CHR ''-''" by (simp add: is_js_whitespace_def)
  moreover have "\<not> is_js_whitespace (last s)"
    using decimal_hd_last(2) [OF assms] by (rule decimal_not_whitespace)
  ultimately have t: "trim (CHR ''-'' # s) = CHR ''-'' # s"
    using assms(1) by (intro trim_guarded) simp_all
  show ?thesis
    by (simp add: BigInt_def t startsWith_def)
qed

lemma BigInt_show_int: "BigInt (show_int i) = Inr i"
proof (cases "i < 0")
  case False
  then show ?thesis by (simp add: show_int_def BigInt_show_nat)
next
  case True
  have "BigInt (CHR ''-'' # show_nat (nat (- i))) = Inr (- int (nat (- i)))"
    using show_nat_digits [of "nat (- i)"]
    by (simp add: BigInt_minus unsigned_value_def digits_value_show_nat)
  with True show ?thesis by (simp add: show_int_def)
qed


section \<open>Orchestrator\<close>

text \<open>\<open>CrossChainProgress\<close> and \<open>CrossChainResult\<close> of the app's entry file
  (api/cross-chain/index.ts; in the source tree its text follows that of
  \<open>CROSS_CHAIN_SETUP.md\<close>); an optional property that is not set is \<open>None\<close>. The
  interface comments give the range of the fields: \<open>step\<close> is the "current step 1/2/3",
  \<open>totalSteps\<close> the "total steps 3", \<open>percentage\<close> the "progress percentage 0-100".\<close>

datatype progress_status = Processing | Completed | Failed

record CrossChainProgress =
  step :: nat
  totalSteps :: nat
  status :: progress_status
  progress_message :: string
  txHash :: "string option"
  details :: "string option"
  percentage :: "nat option"

record CrossChainResult =
  success :: bool
  baseTxHash :: "string option"
  aptosTxHash :: "string option"
  usdcAmount :: "string option"
  error_message :: "string option"

record credentials =
  BASE_PRIVATE_KEY :: string
  APTOS_PRIVATE_KEY :: string
  APTOS_RECIPIENT :: string

definition USDC_AMOUNT :: string where
  "USDC_AMOUNT = ''1.0''"

text \<open>
  The collaborators of \<open>executeCrossChain\<close>: \<open>initialize\<close> is what creating the provider,
  the wallet (from the Base private key) and the three services throws, if anything; the
  other three are the methods called for the three steps.
\<close>

record services =
  initialize :: "string \<Rightarrow> js_error option"
  executeFullCrossChain :: "string \<Rightarrow> string \<Rightarrow> js_error + BaseSendResult"
  getAttestationFromTransaction :: "string \<Rightarrow> js_error + AttestationData"
  receiveCCTPUSDC :: "string \<Rightarrow> string \<Rightarrow> string \<Rightarrow> AptosReceiveResult"

definition progress ::
  "nat \<Rightarrow> progress_status \<Rightarrow> string \<Rightarrow> string option \<Rightarrow> nat \<Rightarrow> CrossChainProgress" where
  "progress n st msg hash pct =
     \<lparr>step = n, totalSteps = 3, status = st, progress_message = msg, txHash = hash,
      details = None, percentage = Some pct\<rparr>"

text \<open>The \<open>catch\<close> of \<open>executeCrossChain\<close>: one more progress value, then the failure result.
  \<^verbatim>\<open>
  onProgress({ step: 0, totalSteps: 3, status: 'failed', message: 'Cross-chain failed',
               details: error.message, percentage: 0 });
  return { success: false, error: error.message };
  \<close>\<close>

definition caught :: "CrossChainProgress list \<Rightarrow> js_error \<Rightarrow> CrossChainProgress list \<times> CrossChainResult" where
  "caught emitted e =
     (emitted @ [\<lparr>step = 0, totalSteps = 3, status = Failed, progress_message = ''Cross-chain failed'',
                  txHash = None, details = Some (message e), percentage = Some 0\<rparr>],
      \<lparr>success = False, baseTxHash = None, aptosTxHash = None, usdcAmount = None,
       error_message = Some (message e)\<rparr>)"

text \<open>The first component lists the arguments of the calls of \<open>onProgress\<close>, in order.\<close>

definition executeCrossChain ::
  "credentials \<Rightarrow> services \<Rightarrow> CrossChainProgress list \<times> CrossChainResult" where
  "executeCrossChain creds svc =
     (case initialize svc (BASE_PRIVATE_KEY creds) of
        Some e \<Rightarrow> caught [] e
      | None \<Rightarrow>
          (let p1 = [progress 1 Processing ''Burning USDC on Base chain...'' None 10] in
           case executeFullCrossChain svc USDC_AMOUNT (APTOS_RECIPIENT creds) of
             Inl e \<Rightarrow> caught p1 e
           | Inr sendResult \<Rightarrow>
               (let p2 = p1 @
                      [progress 1 Completed ''Base chain transaction successful''
                         (Some (send_txHash sendResult)) 33,
                       progress 2 Processing ''Waiting for Circle signature...'' None 40] in
                case getAttestationFromTransaction svc (send_txHash sendResult) of
                  Inl e \<Rightarrow> caught p2 e
                | Inr attestationData \<Rightarrow>
                    (let p3 = p2 @
                           [progress 2 Completed ''Circle signature retrieved successfully'' None 66,
                            progress 3 Processing ''Receiving USDC on Aptos chain...'' None 75];
                         receiveResult = receiveCCTPUSDC svc (att_messageBytes attestationData)
                                           (att_attestation attestationData) (APTOS_PRIVATE_KEY creds)
                     in if \<not> recv_success receiveResult then
                          caught p3 (mkError ''Aptos receive failed'')
                        else
                          (p3 @ [progress 3 Completed ''Cross-chain completed!''
                                   (Some (recv_txHash receiveResult)) 100],
                           \<lparr>success = True, baseTxHash = Some (send_txHash sendResult),
                            aptosTxHash = Some (recv_txHash receiveResult),
                            usdcAmount = Some USDC_AMOUNT, error_message = None\<rparr>)))))"

text \<open>The app's services over a source chain, an attestation lookup and a destination
  chain, and stubs for concrete runs.\<close>

definition app_services ::
  "source_chain \<Rightarrow> (string \<Rightarrow> js_error + AttestationData) \<Rightarrow> destination_chain \<Rightarrow> services" where
  "app_services src attest dst =
     \<lparr>initialize = (\<lambda>key. None),
      executeFullCrossChain = (\<lambda>amount recipientAddress. fst (app_executeFullCrossChain src amount recipientAddress)),
      getAttestationFromTransaction = attest,
      receiveCCTPUSDC = app_receiveCCTPUSDC dst\<rparr>"

definition stub_credentials :: credentials where
  "stub_credentials = \<lparr>BASE_PRIVATE_KEY = ''0xb4'', APTOS_PRIVATE_KEY = ''0xa9'', APTOS_RECIPIENT = stub_recipient\<rparr>"

definition stub_attestation :: AttestationData where
  "stub_attestation = \<lparr>att_status = complete, att_messageHash = ''0x7f'', att_messageBytes = ''0x0102'',
     att_attestation = ''0xab''\<rparr>"


subsection \<open>Properties of the orchestrator\<close>



text \<open>
  C6 (as the code has it). A run that fails returns \<open>success: false\<close>. When creating
  the services, the source send or the attestation retrieval throws, the returned error
  message and the details of the final progress value are the thrown error's message,
  verbatim. When the receive step fails, the receiver has already swallowed the error
  into its failure value, and the returned message is the fixed text
  \<open>Aptos receive failed\<close>.
\<close>

theorem executeCrossChain_failure_message:
  "(initialize svc (BASE_PRIVATE_KEY creds) = Some e \<longrightarrow>
      executeCrossChain creds svc = caught [] e)
   \<and> (initialize svc (BASE_PRIVATE_KEY creds) = None
        \<and> executeFullCrossChain svc USDC_AMOUNT (APTOS_RECIPIENT creds) = Inl e \<longrightarrow>
      snd (executeCrossChain creds svc) = snd (caught [] e))
   \<and> (initialize svc (BASE_PRIVATE_KEY creds) = None
        \<and> executeFullCrossChain svc USDC_AMOUNT (APTOS_RECIPIENT creds) = Inr sendResult
        \<and> getAttestationFromTransaction svc (send_txHash sendResult) = Inl e \<longrightarrow>
      snd (executeCrossChain creds svc) = snd (caught [] e))
   \<and> (initialize svc (BASE_PRIVATE_KEY creds) = None
        \<and> executeFullCrossChain svc USDC_AMOUNT (APTOS_RECIPIENT creds) = Inr sendResult
        \<and> getAttestationFromTransaction svc (send_txHash sendResult) = Inr attestationData
        \<and> receiveCCTPUSDC svc = app_receiveCCTPUSDC dst
        \<and> app_receive_try dst (att_messageBytes attestationData) (att_attestation attestationData)
             (APTOS_PRIVATE_KEY creds) = Inl e \<longrightarrow>
      snd (executeCrossChain creds svc) = snd (caught [] (mkError ''Aptos receive failed'')))
   \<and> snd (caught emitted e) =
        \<lparr>success = False, baseTxHash = None, aptosTxHash = None, usdcAmount = None,
         error_message = Some (message e)\<rparr>
   \<and> (\<not> success (snd (executeCrossChain creds svc)) \<longrightarrow>
        status (last (fst (executeCrossChain creds svc))) = Failed
        \<and> details (last (fst (executeCrossChain creds svc)))
            = error_message (snd (executeCrossChain creds svc)))"
  by (auto simp: executeCrossChain_def caught_def Let_def app_receiveCCTPUSDC_def failed_receive_def
      split: option.splits sum.splits)

text \<open>Stub services in which one collaborator fails.\<close>

definition services_bad_key :: services where
  "services_bad_key =
     (app_services (stub_source_chain ''5.0'' (\<lambda>k. Inr stub_burned)) (\<lambda>tx. Inr stub_attestation)
        (stub_destination_chain ''0'' ''1000000'' (Inr stub_minted)))
     \<lparr>initialize := (\<lambda>key. Some (mkError ''invalid private key''))\<rparr>"

definition services_no_gas :: services where
  "services_no_gas =
     app_services
       ((stub_source_chain ''5.0'' (\<lambda>k. Inr stub_burned))
          \<lparr>approveTx := (\<lambda>n. Inl (JsError (Some ''INSUFFICIENT_FUNDS'') ''insufficient funds for gas''))\<rparr>)
       (\<lambda>tx. Inr stub_attestation)
       (stub_destination_chain ''0'' ''1000000'' (Inr stub_minted))"

definition services_no_attestation :: services where
  "services_no_attestation =
     app_services (stub_source_chain ''5.0'' (\<lambda>k. Inr stub_burned))
       (\<lambda>tx. Inl retries_exceeded_error)
       (stub_destination_chain ''0'' ''1000000'' (Inr stub_minted))"

definition services_reverted :: services where
  "services_reverted =
     app_services (stub_source_chain ''5.0'' (\<lambda>k. Inr stub_burned)) (\<lambda>tx. Inr stub_attestation)
       (stub_destination_chain ''0'' ''0'' (Inr stub_reverted))"

definition failure_result :: "string \<Rightarrow> CrossChainResult" where
  "failure_result m =
     \<lparr>success = False, baseTxHash = None, aptosTxHash = None, usdcAmount = None,
      error_message = Some m\<rparr>"

lemma stub_sent:
  "fst (app_executeFullCrossChain (stub_source_chain ''5.0'' (\<lambda>k. Inr stub_burned)) USDC_AMOUNT
          stub_recipient) =
   Inr \<lparr>send_txHash = ''0xb1'', send_nonce = Some ''0'', send_messageBytes = Some ''0x0102''\<rparr>"
  by (simp add: USDC_AMOUNT_def
      app_executeFullCrossChain_def app_approveUSDC_def app_depositForBurn_def
      app_read_receipt_def has_topic0_def stub_receipt_def
      stub_source_chain_def stub_recipient_def aptosAddressToBytes32_def startsWith_def
      APTOS_DOMAIN_ID_def)

lemma stub_no_gas:
  "fst (app_executeFullCrossChain
          ((stub_source_chain ''5.0'' (\<lambda>k. Inr stub_burned))
             \<lparr>approveTx := (\<lambda>n. Inl (JsError (Some ''INSUFFICIENT_FUNDS'') ''insufficient funds for gas''))\<rparr>)
          USDC_AMOUNT stub_recipient) =
   Inl (JsError (Some ''INSUFFICIENT_FUNDS'') ''insufficient funds for gas'')"
  by (simp add: USDC_AMOUNT_def app_executeFullCrossChain_def app_approveUSDC_def
      stub_source_chain_def)

lemma stub_reverted_try:
  "app_receive_try (stub_destination_chain ''0'' ''0'' (Inr stub_reverted)) ''0x0102'' ''0xab'' ''0xa9''
     = Inl (mkError ''Transaction failed: Move abort'')"
  by (simp add: app_receive_try_def stub_destination_chain_def stub_reverted_def
      report_receive_def startsWith_def script_bytes_atob)

theorem executeCrossChain_failure_message_witness:
  "executeCrossChain stub_credentials services_bad_key = caught [] (mkError ''invalid private key'')
   \<and> snd (executeCrossChain stub_credentials services_no_gas)
        = failure_result ''insufficient funds for gas''
   \<and> snd (executeCrossChain stub_credentials services_no_attestation)
        = failure_result ''Getting attestation exceeded maximum retry attempts''
   \<and> snd (executeCrossChain stub_credentials services_reverted)
        = failure_result ''Aptos receive failed''"
proof -
  let ?sent = "\<lparr>send_txHash = ''0xb1'', send_nonce = Some ''0'', send_messageBytes = Some ''0x0102''\<rparr>"
  have a: "executeCrossChain stub_credentials services_bad_key = caught [] (mkError ''invalid private key'')"
    using executeCrossChain_failure_message
            [of services_bad_key stub_credentials "mkError ''invalid private key''"]
    by (simp add: services_bad_key_def app_services_def)
  have b: "snd (executeCrossChain stub_credentials services_no_gas)
      = failure_result ''insufficient funds for gas''"
    using executeCrossChain_failure_message
            [of services_no_gas stub_credentials
                "JsError (Some ''INSUFFICIENT_FUNDS'') ''insufficient funds for gas''"]
          stub_no_gas
    by (simp add: services_no_gas_def app_services_def stub_credentials_def caught_def
        failure_result_def)
  have c: "snd (executeCrossChain stub_credentials services_no_attestation)
      = failure_result ''Getting attestation exceeded maximum retry attempts''"
    using executeCrossChain_failure_message
            [of services_no_attestation stub_credentials retries_exceeded_error ?sent]
          stub_sent
    by (simp add: services_no_attestation_def app_services_def stub_credentials_def caught_def
        failure_result_def retries_exceeded_error_def mkError_def)
  have d: "snd (executeCrossChain stub_credentials services_reverted)
      = failure_result ''Aptos receive failed''"
    using executeCrossChain_failure_message
            [of services_reverted stub_credentials "mkError ''Transaction failed: Move abort''" ?sent
                stub_attestation "stub_destination_chain ''0'' ''0'' (Inr stub_reverted)"]
          stub_sent stub_reverted_try
    by (simp add: services_reverted_def app_services_def stub_credentials_def caught_def
        failure_result_def stub_attestation_def mkError_def)
  from a b c d show ?thesis by simp
qed

text \<open>
  C6 as stated fails: the destination transaction is reverted, the receiver's error
  reads \<open>Transaction failed: Move abort\<close>, and the orchestrator returns the substituted
  message \<open>Aptos receive failed\<close>.
\<close>

theorem executeCrossChain_receive_failure_counterexample:
  "app_receive_try (stub_destination_chain ''0'' ''0'' (Inr stub_reverted)) ''0x0102'' ''0xab'' ''0xa9''
     = Inl (mkError ''Transaction failed: Move abort'')
   \<and> snd (executeCrossChain stub_credentials services_reverted) = failure_result ''Aptos receive failed''"
proof -
  have "receiveCCTPUSDC services_reverted ''0x0102'' ''0xab'' ''0xa9'' = failed_receive"
    by (simp add: services_reverted_def app_services_def app_receiveCCTPUSDC_def stub_reverted_try)
  then have "snd (executeCrossChain stub_credentials services_reverted) = failure_result ''Aptos receive failed''"
    using stub_sent
    by (simp add: executeCrossChain_def services_reverted_def app_services_def stub_credentials_def
        stub_attestation_def failed_receive_def caught_def failure_result_def mkError_def)
  with stub_reverted_try show ?thesis by simp
qed

text \<open>Every progress value carries \<open>totalSteps = 3\<close>; the steps 1 to 3 belong to the values
  that are not failures, and the value of the \<open>catch\<close> carries step 0.\<close>

definition well_numbered :: "CrossChainProgress \<Rightarrow> bool" where
  "well_numbered p =
     (totalSteps p = 3 \<and> (if status p = Failed then step p = 0 else 1 \<le> step p \<and> step p \<le> 3))"

lemma executeCrossChain_numbering:
  "list_all well_numbered (fst (executeCrossChain creds svc))"
  by (simp add: executeCrossChain_def caught_def progress_def well_numbered_def Let_def
      split: option.splits sum.splits)

lemma executeCrossChain_failure_step:
  assumes "\<not> success (snd (executeCrossChain creds svc))"
  shows "step (last (fst (executeCrossChain creds svc))) = 0"
  using assms
  by (simp add: executeCrossChain_def caught_def Let_def split: option.splits sum.splits if_splits)

text \<open>
  C9. In a run whose source send throws, \<open>onProgress\<close> is called twice: with step 1 of
  3, processing, and from the \<open>catch\<close> with step 0 of 3, failed. The interface declares
  the step as \<open>1/2/3\<close>; the failure value is outside that range.
\<close>

theorem executeCrossChain_failed_step_zero:
  "fst (executeCrossChain stub_credentials services_no_gas) =
     [\<lparr>step = 1, totalSteps = 3, status = Processing,
       progress_message = ''Burning USDC on Base chain...'', txHash = None, details = None,
       percentage = Some 10\<rparr>,
      \<lparr>step = 0, totalSteps = 3, status = Failed, progress_message = ''Cross-chain failed'',
       txHash = None, details = Some ''insufficient funds for gas'', percentage = Some 0\<rparr>]"
  using stub_no_gas
  by (simp add: executeCrossChain_def services_no_gas_def app_services_def stub_credentials_def
      caught_def progress_def)

end
